theory Spec2Isabelle
  imports Main "HOL-Library.Word" "HOL-Library.Sublist"
begin

section \<open>JavaScript strings\<close>

text \<open>
  A JavaScript string is a sequence of 16-bit code units; \<open>length\<close> counts code units,
  as the \<open>.length\<close> property does. The user-visible messages of the extension are Korean;
  each one is written out as its code units, with the source line and an English gloss.
\<close>

type_synonym jsstring = "16 word list"

definition ascii :: "string \<Rightarrow> jsstring" where
  "ascii s = map of_char s"

text \<open>\<open>String.prototype.includes\<close>: the argument occurs as a contiguous run.\<close>

definition js_includes :: "jsstring \<Rightarrow> jsstring \<Rightarrow> bool" where
  "js_includes s t = sublist t s"

text \<open>
  \<open>String.prototype.trim\<close> strips the ECMAScript white space and line terminator code
  units from both ends.
\<close>

definition is_js_space :: "16 word \<Rightarrow> bool" where
  "is_js_space c \<longleftrightarrow>
     c \<in> set [0x9, 0xA, 0xB, 0xC, 0xD, 0x20, 0xA0, 0x1680, 0x2000, 0x2001, 0x2002, 0x2003,
              0x2004, 0x2005, 0x2006, 0x2007, 0x2008, 0x2009, 0x200A, 0x2028, 0x2029, 0x202F,
              0x205F, 0x3000, 0xFEFF]"

definition trim :: "jsstring \<Rightarrow> jsstring" where
  "trim s = rev (dropWhile is_js_space (rev (dropWhile is_js_space s)))"

text \<open>Decimal rendering of a non-negative integer inside a template literal.\<close>

fun show_nat :: "nat \<Rightarrow> jsstring" where
  "show_nat n =
     (if n < 10 then [of_nat (48 + n)] else show_nat (n div 10) @ [of_nat (48 + n mod 10)])"

text \<open>
  \<open>a || b\<close> on strings: the empty string is falsy, and so is a missing property
  (\<open>undefined\<close>), written \<open>None\<close>.
\<close>

definition or_else :: "jsstring option \<Rightarrow> jsstring \<Rightarrow> jsstring" where
  "or_else a b = (case a of None \<Rightarrow> b | Some s \<Rightarrow> if s = [] then b else s)"

text \<open>An exception value: the \<open>name\<close> and \<open>message\<close> of an \<open>Error\<close> object.\<close>

datatype error_name = Error | TypeError | SyntaxError | AbortError

datatype js_error = JsError (name: error_name) (message: jsstring)


section \<open>Tab lifecycle manager (background script)\<close>

text \<open>
  A URL is kept as the page it names and its list of query parameters, the way the \<open>URL\<close>
  object with its \<open>searchParams\<close> presents it; serialising and parsing the \<open>href\<close> text
  is the browser's work.
\<close>

record url =
  page :: jsstring
  searchParams :: "(jsstring \<times> jsstring) list"

text \<open>
  The methods of \<open>URLSearchParams\<close> take their arguments as scalar value strings: on the
  way in, every surrogate code unit that is not part of a pair (a lead unit followed by a
  trail unit) is replaced by U+FFFD.
\<close>

definition is_lead :: "16 word \<Rightarrow> bool" where
  "is_lead c \<longleftrightarrow> 0xD800 \<le> c \<and> c \<le> 0xDBFF"

definition is_trail :: "16 word \<Rightarrow> bool" where
  "is_trail c \<longleftrightarrow> 0xDC00 \<le> c \<and> c \<le> 0xDFFF"

fun USVString :: "jsstring \<Rightarrow> jsstring" where
  "USVString [] = []"
| "USVString [c] = (if is_lead c \<or> is_trail c then [0xFFFD] else [c])"
| "USVString (c # d # cs) =
     (if is_lead c \<and> is_trail d then c # d # USVString cs
      else if is_lead c \<or> is_trail c then 0xFFFD # USVString (d # cs)
      else c # USVString (d # cs))"

text \<open>
  \<open>URLSearchParams.set\<close>: the first pair with that name takes the value and later pairs
  with the name are dropped; a new name is appended.
\<close>

fun params_set :: "jsstring \<Rightarrow> jsstring \<Rightarrow> (jsstring \<times> jsstring) list \<Rightarrow> (jsstring \<times> jsstring) list" where
  "params_set k v [] = [(k, v)]"
| "params_set k v ((k', v') # ps) =
     (if k' = k then (k, v) # filter (\<lambda>p. fst p \<noteq> k) ps else (k', v') # params_set k v ps)"

definition searchParams_set :: "jsstring \<Rightarrow> jsstring \<Rightarrow> url \<Rightarrow> url" where
  "searchParams_set k v u =
     u\<lparr>searchParams := params_set (USVString k) (USVString v) (searchParams u)\<rparr>"

text \<open>\<open>URLSearchParams.get\<close>: the first value with that name, \<open>null\<close> when there is none.\<close>

definition searchParams_get :: "jsstring \<Rightarrow> url \<Rightarrow> jsstring option" where
  "searchParams_get k u = map_of (searchParams u) (USVString k)"

record tab =
  tab_url :: url
  active :: bool

text \<open>
  The browser as the background script sees it: the open tabs by identifier, and the
  \<open>translatorTabId\<close> entry of \<open>chrome.storage.session\<close> (\<open>None\<close> when the key is unset).
\<close>

record browser =
  tabs :: "nat \<rightharpoonup> tab"
  translatorTabId :: "nat option"

record video_ref =
  videoId :: jsstring
  videoTitle :: jsstring
  fullUrl :: jsstring

record message_t =
  action :: jsstring
  data :: "video_ref option"

text \<open>
  \<open>createTranslatorTab\<close>, \<^verbatim>\<open>part_001\<close> lines 7-14. \<open>chrome.tabs.create\<close> opens the tab under
  an identifier the browser picks, here the argument \<open>newId\<close>; the callback stores it when
  it is truthy.
\<close>

definition createTranslatorTab :: "url \<Rightarrow> nat \<Rightarrow> browser \<Rightarrow> browser" where
  "createTranslatorTab u newId b =
     (let b' = b\<lparr>tabs := (tabs b)(newId \<mapsto> \<lparr>tab_url = u, active = True\<rparr>)\<rparr>
      in if newId \<noteq> 0 then b'\<lparr>translatorTabId := Some newId\<rparr> else b')"

text \<open>\<open>chrome.tabs.get\<close> rejects when no tab has the identifier.\<close>

definition chrome_tabs_get :: "nat \<Rightarrow> browser \<Rightarrow> unit + tab" where
  "chrome_tabs_get i b = (case tabs b i of None \<Rightarrow> Inl () | Some t \<Rightarrow> Inr t)"

definition chrome_tabs_update :: "nat \<Rightarrow> url \<Rightarrow> browser \<Rightarrow> browser" where
  "chrome_tabs_update i u b =
     (case tabs b i of
        None \<Rightarrow> b
      | Some t \<Rightarrow> b\<lparr>tabs := (tabs b)(i \<mapsto> t\<lparr>tab_url := u, active := True\<rparr>)\<rparr>)"

text \<open>
  \<open>reuseOrCreateTab\<close>, \<^verbatim>\<open>part_001\<close> lines 20-39. The stored identifier is tested for
  truthiness (\<open>0\<close> and a missing key both fail the test); a rejected lookup is caught and
  takes the creating branch.
\<close>

definition reuseOrCreateTab :: "url \<Rightarrow> nat \<Rightarrow> browser \<Rightarrow> browser" where
  "reuseOrCreateTab newUrl newId b =
     (case translatorTabId b of
        None \<Rightarrow> createTranslatorTab newUrl newId b
      | Some i \<Rightarrow>
          if i \<noteq> 0 then
            (case chrome_tabs_get i b of
               Inr t \<Rightarrow> chrome_tabs_update i newUrl b
             | Inl _ \<Rightarrow> createTranslatorTab newUrl newId b)
          else createTranslatorTab newUrl newId b)"

text \<open>The address of the translator page with the three parameters set, lines 45-48.\<close>

definition ui_page :: url where
  "ui_page = \<lparr>page = ascii ''translator_ui.html'', searchParams = []\<rparr>"

definition ui_url :: "video_ref \<Rightarrow> url" where
  "ui_url v =
     searchParams_set (ascii ''fullUrl'') (fullUrl v)
       (searchParams_set (ascii ''videoTitle'') (videoTitle v)
         (searchParams_set (ascii ''videoId'') (videoId v) ui_page))"

text \<open>The \<open>onMessage\<close> listener, lines 41-56.\<close>

definition onMessage :: "message_t \<Rightarrow> nat \<Rightarrow> browser \<Rightarrow> browser" where
  "onMessage request newId b =
     (if action request = ascii ''showVideoId'' then
        (case data request of
           None \<Rightarrow> b
         | Some v \<Rightarrow> if videoId v \<noteq> [] then reuseOrCreateTab (ui_url v) newId b else b)
      else b)"

text \<open>The \<open>tabs.onRemoved\<close> listener, lines 72-79.\<close>

definition onRemoved :: "nat \<Rightarrow> browser \<Rightarrow> browser" where
  "onRemoved tabId b =
     (let b' = b\<lparr>tabs := (tabs b)(tabId := None)\<rparr>
      in if translatorTabId b = Some tabId then b'\<lparr>translatorTabId := None\<rparr> else b')"

section \<open>The translator page (\<^verbatim>\<open>translator_ui.js\<close>)\<close>

subsection \<open>Message texts\<close>

definition msg_enter_text :: jsstring where
  \<comment> \<open>lines 269 and 375, in English: Please enter the text to translate\<close>
  "msg_enter_text = [0xBC88, 0xC5ED, 0xD560, 0x20, 0xB0B4, 0xC6A9, 0xC744, 0x20, 0xC785, 0xB825, 0xD574,
     0xC8FC, 0xC138, 0xC694]"

definition label_loading :: jsstring where
  \<comment> \<open>line 273, in English: loading\<close>
  "label_loading = [0xB85C, 0xB529]"

definition label_none :: jsstring where
  \<comment> \<open>line 273, in English: none\<close>
  "label_none = [0xC5C6, 0xC74C]"

definition msg_select_model :: jsstring where
  \<comment> \<open>line 274, in English: Please select an available model first\<close>
  "msg_select_model = [0xC0AC, 0xC6A9, 0x20, 0xAC00, 0xB2A5, 0xD55C, 0x20, 0xBAA8, 0xB378, 0xC744, 0x20,
     0xBA3C, 0xC800, 0x20, 0xC120, 0xD0DD, 0xD574, 0xC8FC, 0xC138, 0xC694]"

definition msg_preparing :: jsstring where
  \<comment> \<open>line 280, in English: Preparing translation...\<close>
  "msg_preparing = [0xBC88, 0xC5ED, 0x20, 0xC900, 0xBE44, 0xC911, 0x2E, 0x2E, 0x2E]"

definition step_connecting :: jsstring where
  \<comment> \<open>line 283, in English: Connecting to server...\<close>
  "step_connecting = [0xC11C, 0xBC84, 0x20, 0xC5F0, 0xACB0, 0xC911, 0x2E, 0x2E, 0x2E]"

definition step_sending :: jsstring where
  \<comment> \<open>line 283, in English: Sending request...\<close>
  "step_sending = [0xC694, 0xCCAD, 0x20, 0xC804, 0xC1A1, 0xC911, 0x2E, 0x2E, 0x2E]"

definition step_translating :: jsstring where
  \<comment> \<open>line 283, in English: AI translating...\<close>
  "step_translating = [0x41, 0x49, 0x20, 0xBC88, 0xC5ED, 0x20, 0xCC98, 0xB9AC, 0xC911, 0x2E, 0x2E, 0x2E]"

definition step_receiving :: jsstring where
  \<comment> \<open>line 283, in English: Receiving result...\<close>
  "step_receiving = [0xACB0, 0xACFC, 0x20, 0xC218, 0xC2E0, 0xC911, 0x2E, 0x2E, 0x2E]"

definition step_finishing :: jsstring where
  \<comment> \<open>line 283, in English: Finishing...\<close>
  "step_finishing = [0xC644, 0xB8CC, 0x20, 0xCC98, 0xB9AC, 0xC911, 0x2E, 0x2E, 0x2E]"

definition msg_timeout_status :: jsstring where
  \<comment> \<open>line 290, in English: The request exceeded 3 minutes and was cancelled\<close>
  "msg_timeout_status = [0xC694, 0xCCAD, 0xC774, 0x20, 0x33, 0xBD84, 0xC744, 0x20, 0xCD08, 0xACFC, 0xD558,
     0xC5EC, 0x20, 0xCDE8, 0xC18C, 0xB418, 0xC5C8, 0xC2B5, 0xB2C8, 0xB2E4]"

definition msg_processing_response :: jsstring where
  \<comment> \<open>line 316, in English: Processing server response...\<close>
  "msg_processing_response = [0xC11C, 0xBC84, 0x20, 0xC751, 0xB2F5, 0x20, 0xCC98, 0xB9AC, 0xC911, 0x2E, 0x2E, 0x2E]"

definition msg_unknown_server_error :: jsstring where
  \<comment> \<open>line 320, in English: Unknown server error\<close>
  "msg_unknown_server_error = [0xC54C, 0x20, 0xC218, 0x20, 0xC5C6, 0xB294, 0x20, 0xC11C, 0xBC84, 0x20, 0xC624,
     0xB958]"

definition tag_input_error :: jsstring where
  \<comment> \<open>lines 321 and 348, in English: Input error\<close>
  "tag_input_error = [0xC785, 0xB825, 0x20, 0xC624, 0xB958]"

definition tag_server_error :: jsstring where
  \<comment> \<open>lines 322 and 349, in English: Internal server error\<close>
  "tag_server_error = [0xC11C, 0xBC84, 0x20, 0xB0B4, 0xBD80, 0x20, 0xC624, 0xB958]"

definition msg_showing_result :: jsstring where
  \<comment> \<open>line 330, in English: Showing result...\<close>
  "msg_showing_result = [0xACB0, 0xACFC, 0x20, 0xD45C, 0xC2DC, 0xC911, 0x2E, 0x2E, 0x2E]"

definition suffix_translated :: jsstring where
  \<comment> \<open>line 337, in English: characters translated\<close>
  "suffix_translated = [0xC790, 0x20, 0xBC88, 0xC5ED, 0x20, 0xC644, 0xB8CC]"

definition msg_unknown_error :: jsstring where
  \<comment> \<open>line 345, in English: An unknown error occurred. Please try again.\<close>
  "msg_unknown_error = [0xC54C, 0x20, 0xC218, 0x20, 0xC5C6, 0xB294, 0x20, 0xC624, 0xB958, 0xAC00, 0x20,
     0xBC1C, 0xC0DD, 0xD588, 0xC2B5, 0xB2C8, 0xB2E4, 0x2E, 0x20, 0xB2E4, 0xC2DC, 0x20,
     0xC2DC, 0xB3C4, 0xD574, 0xC8FC, 0xC138, 0xC694, 0x2E]"

definition msg_timeout :: jsstring where
  \<comment> \<open>line 346, in English: The request timed out. Please check your internet connection.\<close>
  "msg_timeout = [0xC694, 0xCCAD, 0x20, 0xC2DC, 0xAC04, 0xC774, 0x20, 0xCD08, 0xACFC, 0xB418, 0xC5C8,
     0xC2B5, 0xB2C8, 0xB2E4, 0x2E, 0x20, 0xC778, 0xD130, 0xB137, 0x20, 0xC5F0, 0xACB0,
     0xC744, 0x20, 0xD655, 0xC778, 0xD574, 0xC8FC, 0xC138, 0xC694, 0x2E]"

definition msg_unreachable :: jsstring where
  \<comment> \<open>line 347, in English: Cannot connect to the server. Please check that the server is running.\<close>
  "msg_unreachable = [0xC11C, 0xBC84, 0xC5D0, 0x20, 0xC5F0, 0xACB0, 0xD560, 0x20, 0xC218, 0x20, 0xC5C6,
     0xC2B5, 0xB2C8, 0xB2E4, 0x2E, 0x20, 0xC11C, 0xBC84, 0xAC00, 0x20, 0xC2E4, 0xD589,
     0x20, 0xC911, 0xC778, 0xC9C0, 0x20, 0xD655, 0xC778, 0xD574, 0xC8FC, 0xC138, 0xC694,
     0x2E]"

definition msg_server_failed :: jsstring where
  \<comment> \<open>line 349, in English: The server failed while translating. Please try again later.\<close>
  "msg_server_failed = [0xC11C, 0xBC84, 0xC5D0, 0xC11C, 0x20, 0xBC88, 0xC5ED, 0xC744, 0x20, 0xCC98, 0xB9AC,
     0xD558, 0xB358, 0x20, 0xC911, 0x20, 0xC624, 0xB958, 0xAC00, 0x20, 0xBC1C, 0xC0DD,
     0xD588, 0xC2B5, 0xB2C8, 0xB2E4, 0x2E, 0x20, 0xC7A0, 0xC2DC, 0x20, 0xD6C4, 0x20,
     0xB2E4, 0xC2DC, 0x20, 0xC2DC, 0xB3C4, 0xD574, 0xC8FC, 0xC138, 0xC694, 0x2E]"

definition msg_ready :: jsstring where
  \<comment> \<open>line 359, in English: Ready\<close>
  "msg_ready = [0xC900, 0xBE44, 0x20, 0xC644, 0xB8CC]"

definition msg_streaming :: jsstring where
  \<comment> \<open>line 382, in English: Streaming translation...\<close>
  "msg_streaming = [0xC2A4, 0xD2B8, 0xB9AC, 0xBC0D, 0x20, 0xBC88, 0xC5ED, 0x20, 0xC911, 0x2E, 0x2E, 0x2E]"

definition msg_stream_failed :: jsstring where
  \<comment> \<open>line 405, in English: The streaming connection failed.\<close>
  "msg_stream_failed = [0xC2A4, 0xD2B8, 0xB9AC, 0xBC0D, 0x20, 0xC5F0, 0xACB0, 0xC5D0, 0x20, 0xC2E4, 0xD328,
     0xD588, 0xC2B5, 0xB2C8, 0xB2E4, 0x2E]"

definition msg_stream_done :: jsstring where
  \<comment> \<open>line 420, in English: Streaming complete\<close>
  "msg_stream_done = [0xC2A4, 0xD2B8, 0xB9AC, 0xBC0D, 0x20, 0xC644, 0xB8CC]"

definition msg_cancelled :: jsstring where
  \<comment> \<open>line 428, in English: The translation was cancelled by the user.\<close>
  "msg_cancelled = [0xBC88, 0xC5ED, 0xC774, 0x20, 0xC0AC, 0xC6A9, 0xC790, 0xC5D0, 0x20, 0xC758, 0xD574,
     0x20, 0xCDE8, 0xC18C, 0xB418, 0xC5C8, 0xC2B5, 0xB2C8, 0xB2E4, 0x2E]"

definition msg_cancelled_status :: jsstring where
  \<comment> \<open>line 429, in English: Translation cancelled\<close>
  "msg_cancelled_status = [0xBC88, 0xC5ED, 0x20, 0xCDE8, 0xC18C, 0xB428]"

definition prefix_error :: jsstring where
  \<comment> \<open>lines 431 and 432, in English: Error: \<close>
  "prefix_error = [0xC624, 0xB958, 0x3A, 0x20]"

definition msg_transcript_loading :: jsstring where
  \<comment> \<open>line 147, in English: Loading the transcript...\<close>
  "msg_transcript_loading = [0xC790, 0xB9C9, 0xC744, 0x20, 0xBD88, 0xB7EC, 0xC624, 0xB294, 0x20, 0xC911, 0xC785,
     0xB2C8, 0xB2E4, 0x2E, 0x2E, 0x2E]"

definition msg_transcript_loading_status :: jsstring where
  \<comment> \<open>line 148, in English: Loading transcript...\<close>
  "msg_transcript_loading_status = [0xC790, 0xB9C9, 0x20, 0xB85C, 0xB529, 0x20, 0xC911, 0x2E, 0x2E, 0x2E]"

definition msg_transcript_unavailable :: jsstring where
  \<comment> \<open>line 154, in English: The transcript cannot be loaded.\<close>
  "msg_transcript_unavailable = [0xC790, 0xB9C9, 0xC744, 0x20, 0xBD88, 0xB7EC, 0xC62C, 0x20, 0xC218, 0x20, 0xC5C6,
     0xC2B5, 0xB2C8, 0xB2E4, 0x2E]"

definition msg_transcript_loaded :: jsstring where
  \<comment> \<open>line 166, in English: Transcript loaded\<close>
  "msg_transcript_loaded = [0xC790, 0xB9C9, 0x20, 0xB85C, 0xB4DC, 0x20, 0xC644, 0xB8CC]"

definition prefix_transcript_failed :: jsstring where
  \<comment> \<open>line 172, in English: Failed to load the transcript: \<close>
  "prefix_transcript_failed = [0xC790, 0xB9C9, 0xC744, 0x20, 0xBD88, 0xB7EC, 0xC624, 0xB294, 0x20, 0xB370, 0x20,
     0xC2E4, 0xD328, 0xD588, 0xC2B5, 0xB2C8, 0xB2E4, 0x3A, 0x20]"

definition prefix_transcript_failed_status :: jsstring where
  \<comment> \<open>line 174, in English: Transcript loading failed: \<close>
  "prefix_transcript_failed_status = [0xC790, 0xB9C9, 0x20, 0xB85C, 0xB529, 0x20, 0xC2E4, 0xD328, 0x3A, 0x20]"

definition msg_placeholder :: jsstring where
  \<comment> \<open>line 219, in English: Enter or paste the text to translate...\<close>
  "msg_placeholder = [0xBC88, 0xC5ED, 0xD560, 0x20, 0xB0B4, 0xC6A9, 0xC744, 0x20, 0xC785, 0xB825, 0xD558,
     0xAC70, 0xB098, 0x20, 0xBD99, 0xC5EC, 0xB123, 0xC73C, 0xC138, 0xC694, 0x2E, 0x2E,
     0x2E]"

definition label_models_loading :: jsstring where
  \<comment> \<open>line 80, in English: Loading models...\<close>
  "label_models_loading = [0xBAA8, 0xB378, 0x20, 0xB85C, 0xB529, 0x20, 0xC911, 0x2E, 0x2E, 0x2E]"

definition msg_models_loading :: jsstring where
  \<comment> \<open>line 81, in English: Loading the model list...\<close>
  "msg_models_loading = [0xBAA8, 0xB378, 0x20, 0xBAA9, 0xB85D, 0xC744, 0x20, 0xBD88, 0xB7EC, 0xC624, 0xB294,
     0x20, 0xC911, 0x2E, 0x2E, 0x2E]"

definition suffix_models_unavailable :: jsstring where
  \<comment> \<open>line 86, in English: : the model list cannot be loaded.\<close>
  "suffix_models_unavailable = [0x3A, 0x20, 0xBAA8, 0xB378, 0x20, 0xBAA9, 0xB85D, 0xC744, 0x20, 0xBD88, 0xB7EC,
     0xC62C, 0x20, 0xC218, 0x20, 0xC5C6, 0xC2B5, 0xB2C8, 0xB2E4, 0x2E]"

definition label_no_models :: jsstring where
  \<comment> \<open>line 92, in English: No models available\<close>
  "label_no_models = [0xC0AC, 0xC6A9, 0x20, 0xAC00, 0xB2A5, 0xD55C, 0x20, 0xBAA8, 0xB378, 0x20, 0xC5C6,
     0xC74C]"

definition msg_no_models :: jsstring where
  \<comment> \<open>line 93, in English: There are no models available\<close>
  "msg_no_models = [0xC0AC, 0xC6A9, 0x20, 0xAC00, 0xB2A5, 0xD55C, 0x20, 0xBAA8, 0xB378, 0xC774, 0x20,
     0xC5C6, 0xC2B5, 0xB2C8, 0xB2E4]"

definition suffix_models_loaded :: jsstring where
  \<comment> \<open>line 109, in English: models loaded\<close>
  "suffix_models_loaded = [0xAC1C, 0x20, 0xBAA8, 0xB378, 0x20, 0xB85C, 0xB4DC, 0x20, 0xC644, 0xB8CC]"

definition label_models_failed :: jsstring where
  \<comment> \<open>line 113, in English: Model loading failed\<close>
  "label_models_failed = [0xBAA8, 0xB378, 0x20, 0xB85C, 0xB529, 0x20, 0xC2E4, 0xD328]"

definition msg_models_failed :: jsstring where
  \<comment> \<open>line 114, in English: Model list loading failed\<close>
  "msg_models_failed = [0xBAA8, 0xB378, 0x20, 0xBAA9, 0xB85D, 0x20, 0xB85C, 0xB529, 0x20, 0xC2E4, 0xD328]"


subsection \<open>Responses and JSON values\<close>

text \<open>
  A parsed JSON value, as far as the page looks into it: \<open>null\<close>, an array of strings (the
  model list), or any other value with its string-valued properties (\<open>detail\<close>,
  \<open>transcript\<close>, \<open>translated_text\<close>). Reading a property of \<open>null\<close> throws a
  \<open>TypeError\<close>, with Chrome's wording of the message; reading a property a value does not
  have gives \<open>undefined\<close>, written \<open>None\<close>.
\<close>

datatype json = JNull | JObject "(jsstring \<times> jsstring) list" | JArray "jsstring list"

definition null_read_message :: "jsstring \<Rightarrow> jsstring" where
  "null_read_message k =
     ascii ''Cannot read properties of null (reading '' @ [0x27] @ k @ [0x27] @ ascii '')''"

definition undefined_read_message :: "jsstring \<Rightarrow> jsstring" where
  "undefined_read_message k =
     ascii ''Cannot read properties of undefined (reading '' @ [0x27] @ k @ [0x27] @ ascii '')''"

fun get_prop :: "jsstring \<Rightarrow> json \<Rightarrow> js_error + jsstring option" where
  "get_prop k JNull = Inl (JsError TypeError (null_read_message k))"
| "get_prop k (JObject ps) = Inr (map_of ps k)"
| "get_prop k (JArray xs) = Inr None"

text \<open>\<open>response.ok\<close>: the status is in the range 200-299.\<close>

definition ok :: "nat \<Rightarrow> bool" where
  "ok st \<longleftrightarrow> 200 \<le> st \<and> st \<le> 299"

text \<open>
  What a \<open>fetch\<close> followed by \<open>response.json()\<close> comes to: the request is rejected, or a
  response with a status arrives and reading its body as JSON gives a value or throws.
\<close>

datatype fetch_json = FetchRejected js_error | FetchResponded nat "js_error + json"


subsection \<open>The page state\<close>

datatype status_type = StInfo | StLoading | StSuccess | StError | StWarning

datatype display = DisplayNone | DisplayBlock | DisplayFlex

record translate_body =
  tb_text :: jsstring
  tb_model :: jsstring
  target_language :: jsstring
  show_notification :: bool

text \<open>
  An asynchronous call that has been started, with the arguments it was started with; each
  one issues exactly one request to the backend, so the list of calls is also the record of
  the network traffic of the page.
\<close>

datatype call =
    ModelsCall jsstring "jsstring option"
  | TranscriptCall jsstring "jsstring option" "jsstring option" bool
  | TranslateCall translate_body
  | TranslateStreamCall translate_body

text \<open>
  The elements the script reads and writes. \<open>input_innerText\<close> is the text of the input
  area as the browser renders it (from its markup and the user's edits);
  \<open>hideTimeout\<close> tells whether the status indicator holds a fade-out timer that it has
  started and not cleared;
  \<open>beforeunload\<close> counts the registered \<open>beforeunload\<close> listeners of this script.
\<close>

record ui =
  input_innerText :: jsstring
  input_innerHTML :: jsstring
  input_contenteditable :: bool
  output_textContent :: jsstring
  translate_disabled :: bool
  status_text :: jsstring
  status_class :: status_type
  status_display :: display
  spinner_display :: bool
  hideTimeout :: bool
  progress_text :: jsstring
  progress_display :: bool
  progress_width :: nat
  model_options :: "jsstring list"
  model_value :: jsstring
  provider_options :: "jsstring list"
  provider_value :: jsstring
  language_value :: jsstring
  notification_checked :: bool
  timestamp_checked :: bool
  streaming_checked :: bool
  localStorage :: "jsstring \<rightharpoonup> jsstring"
  beforeunload :: nat
  calls :: "call list"

text \<open>
  \<open>updateStatus\<close>, lines 13-47. A pending fade-out timer is cleared first, and a success
  message starts a new one; the opacity of the indicator, which only the fade-out changes,
  is not part of the state.
\<close>

definition updateStatus :: "jsstring \<Rightarrow> status_type \<Rightarrow> bool \<Rightarrow> ui \<Rightarrow> ui" where
  "updateStatus msg type showSpinner u =
     (let u1 = u\<lparr>hideTimeout := False, status_class := type, status_text := msg\<rparr>
      in if showSpinner then u1\<lparr>spinner_display := True, status_display := DisplayFlex\<rparr>
         else
           (let u2 = u1\<lparr>spinner_display := False,
                       status_display := (if type = StInfo then DisplayNone else DisplayBlock)\<rparr>
            in if type = StSuccess then u2\<lparr>hideTimeout := True\<rparr> else u2))"

text \<open>\<open>showProgress\<close>, \<open>hideProgress\<close> and \<open>updateProgressBar\<close>, lines 52-73.\<close>

definition showProgress :: "jsstring \<Rightarrow> ui \<Rightarrow> ui" where
  "showProgress msg u = u\<lparr>progress_text := msg, progress_display := True\<rparr>"

definition hideProgress :: "ui \<Rightarrow> ui" where
  "hideProgress u = u\<lparr>progress_display := False\<rparr>"

definition updateProgressBar :: "nat \<Rightarrow> ui \<Rightarrow> ui" where
  "updateProgressBar percentage u = u\<lparr>progress_width := percentage\<rparr>"

text \<open>
  Assigning to the \<open>value\<close> of a \<open>select\<close> element selects the option with that value;
  when no option has it, nothing is selected and the value reads as the empty string.
\<close>

definition select_value :: "jsstring list \<Rightarrow> jsstring \<Rightarrow> jsstring" where
  "select_value opts v = (if v \<in> set opts then v else [])"

text \<open>
  Replacing the options of a \<open>select\<close> element selects the first one; an option without a
  \<open>value\<close> attribute has its text as value.
\<close>

definition set_model_options :: "jsstring list \<Rightarrow> ui \<Rightarrow> ui" where
  "set_model_options opts u =
     u\<lparr>model_options := opts, model_value := (case opts of [] \<Rightarrow> [] | x # _ \<Rightarrow> x)\<rparr>"


subsection \<open>Model registry client\<close>

text \<open>
  \<open>loadModelsForProvider\<close>, lines 78-116, in two parts: what runs until the request is
  sent, and what runs once it has settled. A body that is not an array fails in the
  \<open>try\<close> block with a \<open>TypeError\<close>, whose message is given in Chrome's wording.
\<close>

definition loadModelsForProvider_start :: "jsstring \<Rightarrow> jsstring option \<Rightarrow> ui \<Rightarrow> ui" where
  "loadModelsForProvider_start provider selectedModelName u =
     (let u1 = set_model_options [label_models_loading] u;
          u2 = updateStatus msg_models_loading StLoading True u1
      in u2\<lparr>calls := calls u2 @ [ModelsCall provider selectedModelName]\<rparr>)"

definition models_failed :: "js_error \<Rightarrow> ui \<Rightarrow> ui" where
  "models_failed e u =
     updateStatus (or_else (Some (message e)) msg_models_failed) StError False
       (set_model_options [label_models_failed] u)"

definition loadModelsForProvider_settled :: "jsstring option \<Rightarrow> fetch_json \<Rightarrow> ui \<Rightarrow> ui" where
  "loadModelsForProvider_settled selectedModelName r u =
     (case r of
        FetchRejected e \<Rightarrow> models_failed e u
      | FetchResponded st b \<Rightarrow>
          if \<not> ok st then models_failed (JsError Error (show_nat st @ suffix_models_unavailable)) u
          else
            (case b of
               Inl e \<Rightarrow> models_failed e u
             | Inr JNull \<Rightarrow> models_failed (JsError TypeError (null_read_message (ascii ''length''))) u
             | Inr (JObject ps) \<Rightarrow>
                 models_failed (JsError TypeError (ascii ''models.forEach is not a function''))
                   (set_model_options [] u)
             | Inr (JArray models) \<Rightarrow>
                 if length models = 0 then
                   updateStatus msg_no_models StError False (set_model_options [label_no_models] u)
                 else
                   (let u1 = set_model_options models u;
                        u2 = (case selectedModelName of
                                None \<Rightarrow> u1
                              | Some m \<Rightarrow> if m = [] then u1
                                          else u1\<lparr>model_value := select_value models m\<rparr>)
                    in updateStatus (show_nat (length models) @ suffix_models_loaded)
                         StSuccess False u2)))"


subsection \<open>Transcript fetch client\<close>

text \<open>
  The three chained \<open>replace\<close> calls of line 162, each replacing every occurrence of one
  character.
\<close>

definition replace_all :: "16 word \<Rightarrow> jsstring \<Rightarrow> jsstring \<Rightarrow> jsstring" where
  "replace_all c r s = concat (map (\<lambda>x. if x = c then r else [x]) s)"

definition escape_transcript :: "jsstring \<Rightarrow> jsstring" where
  "escape_transcript t =
     replace_all 0x3E (ascii ''&gt;'') (replace_all 0x3C (ascii ''&lt;'')
       (replace_all 0x26 (ascii ''&amp;'') t))"

text \<open>
  The escaping as the specification words it, for comparison with the code: in one pass,
  each of the characters \<open>&\<close>, \<open><\<close> and \<open>>\<close> becomes its character reference and
  any other character stays.
\<close>

definition html_entity :: "16 word \<Rightarrow> jsstring" where
  "html_entity c =
     (if c = 0x26 then ascii ''&amp;'' else if c = 0x3C then ascii ''&lt;''
      else if c = 0x3E then ascii ''&gt;'' else [c])"

text \<open>A value that may be \<open>null\<close>, as a template literal prints it.\<close>

definition template :: "jsstring option \<Rightarrow> jsstring" where
  "template v = (case v of None \<Rightarrow> ascii ''null'' | Some s \<Rightarrow> s)"

definition titleHTML :: "jsstring \<Rightarrow> jsstring" where
  \<open>titleHTML title =
     ascii ''<div style="font-size: 20px; font-weight: 500;">'' @ trim title
       @ ascii '' - YouTube</div>''\<close>

definition urlHTML :: "jsstring option \<Rightarrow> jsstring" where
  \<open>urlHTML fullUrl_p =
     ascii ''<div style="font-size: 14px; color: #555; margin-bottom: 1em;">''
       @ template fullUrl_p @ ascii ''</div>''\<close>

definition errorHTML :: "jsstring \<Rightarrow> jsstring" where
  \<open>errorHTML msg =
     ascii ''<div style="color: red;">'' @ prefix_transcript_failed @ msg @ ascii ''</div>''\<close>

definition loadingHTML :: jsstring where
  \<open>loadingHTML = ascii ''<div style="color: #888;">'' @ msg_transcript_loading @ ascii ''</div>''\<close>

text \<open>
  \<open>fetchAndDisplayTranscript\<close>, lines 140-176. The part up to the request (lines 141-151)
  reads the timestamp checkbox and shows the loading notice. The input area is an element of
  the page, so the early return of line 142 is not taken; the character counter of line 167
  shows the length of the text the browser renders from the new markup and is left out.
\<close>

definition fetchAndDisplayTranscript_start ::
    "jsstring \<Rightarrow> jsstring option \<Rightarrow> jsstring option \<Rightarrow> ui \<Rightarrow> ui" where
  "fetchAndDisplayTranscript_start videoId_p videoTitle_p fullUrl_p u =
     (let preserveTimestamps = timestamp_checked u;
          u1 = u\<lparr>input_innerHTML := loadingHTML\<rparr>;
          u2 = updateStatus msg_transcript_loading_status StLoading True u1
      in u2\<lparr>calls := calls u2
                 @ [TranscriptCall videoId_p videoTitle_p fullUrl_p preserveTimestamps]\<rparr>)"

text \<open>
  The body of the \<open>try\<close> block after the request, lines 152-167: the rendered markup, or the
  exception thrown on the way. The title is \<open>null\<close> when the page address has no
  \<open>videoTitle\<close> parameter; calling \<open>trim\<close> on it throws.
\<close>

definition transcript_try :: "jsstring option \<Rightarrow> jsstring option \<Rightarrow> fetch_json \<Rightarrow> js_error + jsstring" where
  "transcript_try videoTitle_p fullUrl_p r =
     (case r of
        FetchRejected e \<Rightarrow> Inl e
      | FetchResponded st b \<Rightarrow>
          (case b of
             Inl e \<Rightarrow> Inl e
           | Inr j \<Rightarrow>
               if \<not> ok st then
                 (case get_prop (ascii ''detail'') j of
                    Inl e \<Rightarrow> Inl e
                  | Inr d \<Rightarrow> Inl (JsError Error (or_else d msg_transcript_unavailable)))
               else
                 (case videoTitle_p of
                    None \<Rightarrow> Inl (JsError TypeError (null_read_message (ascii ''trim'')))
                  | Some title \<Rightarrow>
                      (case get_prop (ascii ''transcript'') j of
                         Inl e \<Rightarrow> Inl e
                       | Inr None \<Rightarrow>
                           Inl (JsError TypeError (undefined_read_message (ascii ''replace'')))
                       | Inr (Some transcript) \<Rightarrow>
                           Inr (titleHTML title @ urlHTML fullUrl_p
                                  @ escape_transcript transcript)))))"

text \<open>
  The whole continuation with its \<open>catch\<close> block, lines 168-175. When the title is
  \<open>null\<close> the \<open>catch\<close> block throws in its turn and the call is rejected, the page being
  left as it was.
\<close>

definition fetchAndDisplayTranscript_settled ::
    "jsstring option \<Rightarrow> jsstring option \<Rightarrow> fetch_json \<Rightarrow> ui \<Rightarrow> js_error + ui" where
  "fetchAndDisplayTranscript_settled videoTitle_p fullUrl_p r u =
     (case transcript_try videoTitle_p fullUrl_p r of
        Inr html \<Rightarrow> Inr (updateStatus msg_transcript_loaded StSuccess False (u\<lparr>input_innerHTML := html\<rparr>))
      | Inl e \<Rightarrow>
          (case videoTitle_p of
             None \<Rightarrow> Inl (JsError TypeError (null_read_message (ascii ''trim'')))
           | Some title \<Rightarrow>
               Inr (updateStatus (prefix_transcript_failed_status @ message e) StError False
                      (u\<lparr>input_innerHTML :=
                           titleHTML title @ urlHTML fullUrl_p @ errorHTML (message e)\<rparr>))))"

definition fetchAndDisplayTranscript ::
    "jsstring \<Rightarrow> jsstring option \<Rightarrow> jsstring option \<Rightarrow> fetch_json \<Rightarrow> ui \<Rightarrow> js_error + ui" where
  "fetchAndDisplayTranscript videoId_p videoTitle_p fullUrl_p r u =
     fetchAndDisplayTranscript_settled videoTitle_p fullUrl_p r
       (fetchAndDisplayTranscript_start videoId_p videoTitle_p fullUrl_p u)"


subsection \<open>Initialisation and the persisted preferences\<close>

definition placeholderHTML :: jsstring where
  \<open>placeholderHTML = ascii ''<div style="color: #888;">'' @ msg_placeholder @ ascii ''</div>''\<close>

text \<open>A string tested as a condition: \<open>null\<close> and the empty string are falsy.\<close>

definition truthy :: "jsstring option \<Rightarrow> bool" where
  "truthy v = (case v of None \<Rightarrow> False | Some s \<Rightarrow> s \<noteq> [])"

text \<open>\<open>localStorage.setItem\<close> with a boolean stores its string form.\<close>

definition show_bool :: "bool \<Rightarrow> jsstring" where
  "show_bool c = (if c then ascii ''true'' else ascii ''false'')"

definition setItem :: "jsstring \<Rightarrow> jsstring \<Rightarrow> ui \<Rightarrow> ui" where
  "setItem k v u = u\<lparr>localStorage := (localStorage u)(k \<mapsto> v)\<rparr>"

definition getItem :: "jsstring \<Rightarrow> ui \<Rightarrow> jsstring option" where
  "getItem k u = localStorage u k"

text \<open>
  The \<open>DOMContentLoaded\<close> listener, lines 178-245, up to the point where its two
  asynchronous calls wait for their responses. \<open>location\<close> is the address of the page.
  The character counter and the list of languages (lines 192-194) are left out, except that
  Korean is the selected language afterwards; so are the focus handlers of the placeholder
  (lines 222-232), which only swap the placeholder markup in and out.
\<close>

definition DOMContentLoaded :: "url \<Rightarrow> ui \<Rightarrow> ui" where
  "DOMContentLoaded location u =
     (let videoId_p = searchParams_get (ascii ''videoId'') location;
          videoTitle_p = searchParams_get (ascii ''videoTitle'') location;
          fullUrl_p = searchParams_get (ascii ''fullUrl'') location;
          u1 = u\<lparr>language_value := ascii ''ko''\<rparr>;
          showTimestamp = (getItem (ascii ''show_timestamp'') u1 = Some (ascii ''true''));
          u2 = u1\<lparr>timestamp_checked := showTimestamp\<rparr>;
          useStreaming = (getItem (ascii ''use_streaming'') u2 = Some (ascii ''true''));
          u3 = u2\<lparr>streaming_checked := useStreaming\<rparr>;
          u4 = (if truthy videoId_p
                then fetchAndDisplayTranscript_start (the videoId_p) videoTitle_p fullUrl_p u3
                else u3\<lparr>input_innerHTML := placeholderHTML\<rparr>);
          lastUsedProvider = or_else (getItem (ascii ''lastUsedProvider'') u4) (ascii ''gemini'');
          lastUsedModel = getItem (ascii ''lastUsedModel'') u4;
          u5 = u4\<lparr>provider_value := select_value (provider_options u4) lastUsedProvider\<rparr>
      in loadModelsForProvider_start lastUsedProvider lastUsedModel u5)"

text \<open>
  The \<open>change\<close> listeners of the two checkboxes and of the provider list, lines 200-205,
  211-213 and 240-242. The browser has already put the new value into the control when the
  listener runs; it is the first argument here.
\<close>

definition timestamp_change :: "bool \<Rightarrow> url \<Rightarrow> ui \<Rightarrow> ui" where
  "timestamp_change c location u =
     (let videoId_p = searchParams_get (ascii ''videoId'') location;
          videoTitle_p = searchParams_get (ascii ''videoTitle'') location;
          fullUrl_p = searchParams_get (ascii ''fullUrl'') location;
          u1 = setItem (ascii ''show_timestamp'') (show_bool c) (u\<lparr>timestamp_checked := c\<rparr>)
      in if truthy videoId_p
         then fetchAndDisplayTranscript_start (the videoId_p) videoTitle_p fullUrl_p u1
         else u1)"

definition streaming_change :: "bool \<Rightarrow> ui \<Rightarrow> ui" where
  "streaming_change c u =
     setItem (ascii ''use_streaming'') (show_bool c) (u\<lparr>streaming_checked := c\<rparr>)"

definition provider_change :: "jsstring \<Rightarrow> ui \<Rightarrow> ui" where
  "provider_change v u = loadModelsForProvider_start v None (u\<lparr>provider_value := v\<rparr>)"


subsection \<open>Single-shot translation\<close>

text \<open>
  \<open>handleRegularTranslation\<close>, lines 256-362, is a chain of callbacks around one request.
  The state of one attempt: the page, the values the callbacks have captured, the two timers
  (\<open>Some d\<close>: pending with delay \<open>d\<close> in milliseconds), the delayed completion notice of
  line 335, the abort flag of the controller, and where the chain stands.
\<close>

datatype regular_phase = AwaitFetch | AwaitBody nat | Settled

record regular_flow =
  doc :: ui
  inputText :: jsstring
  selectedProvider :: jsstring
  selectedModel :: jsstring
  progressPhase :: nat
  timeoutId :: "nat option"
  progressInterval :: "nat option"
  completionTimer :: "nat option"
  aborted :: bool
  phase :: regular_phase

definition progressSteps :: "jsstring list" where
  "progressSteps = [step_connecting, step_sending, step_translating, step_receiving, step_finishing]"

definition request_body :: "ui \<Rightarrow> translate_body" where
  "request_body u =
     \<lparr>tb_text = input_innerText u, tb_model = model_value u,
      target_language = language_value u, show_notification = notification_checked u\<rparr>"

text \<open>
  Lines 257-312: the two validations, each ending the handler with a message, then the
  controls are disabled, the timers are started and the request is sent.
\<close>

definition handleRegularTranslation :: "ui \<Rightarrow> ui + regular_flow" where
  "handleRegularTranslation u =
     (if trim (input_innerText u) = [] then Inl (updateStatus msg_enter_text StError False u)
      else if model_value u = [] \<or> js_includes (model_value u) label_loading
                \<or> js_includes (model_value u) label_none
      then Inl (updateStatus msg_select_model StError False u)
      else
        (let u1 = u\<lparr>translate_disabled := True, input_contenteditable := False\<rparr>;
             u2 = updateStatus msg_preparing StLoading True u1;
             u3 = updateProgressBar 10 (showProgress (progressSteps ! 0) u2);
             u4 = u3\<lparr>calls := calls u3 @ [TranslateCall (request_body u)]\<rparr>
         in Inr \<lparr>doc = u4, inputText = input_innerText u, selectedProvider = provider_value u,
                 selectedModel = model_value u, progressPhase = 0, timeoutId = Some 180000,
                 progressInterval = Some 1000, completionTimer = None, aborted = False,
                 phase = AwaitFetch\<rparr>))"

text \<open>The timeout callback, lines 288-294.\<close>

definition on_timeout :: "regular_flow \<Rightarrow> regular_flow" where
  "on_timeout f =
     f\<lparr>aborted := True, timeoutId := None,
       doc := (hideProgress (updateStatus msg_timeout_status StError False (doc f)))
                \<lparr>translate_disabled := False, input_contenteditable := True\<rparr>\<rparr>"

text \<open>The interval callback, lines 296-300.\<close>

definition on_interval :: "regular_flow \<Rightarrow> regular_flow" where
  "on_interval f =
     (let p = min (progressPhase f + 1) (length progressSteps - 1)
      in f\<lparr>progressPhase := p,
           doc := updateProgressBar (10 + p * 20) (showProgress (progressSteps ! p) (doc f))\<rparr>)"

text \<open>The first \<open>then\<close> callback up to the reading of the body, lines 314-316.\<close>

definition on_response :: "nat \<Rightarrow> regular_flow \<Rightarrow> regular_flow" where
  "on_response st f =
     f\<lparr>timeoutId := None, phase := AwaitBody st,
       doc := showProgress msg_processing_response (updateProgressBar 70 (doc f))\<rparr>"

text \<open>The error thrown for a response that is not OK, lines 319-324.\<close>

definition http_error :: "nat \<Rightarrow> json \<Rightarrow> js_error" where
  "http_error st err =
     (case get_prop (ascii ''detail'') err of
        Inl e \<Rightarrow> e
      | Inr d \<Rightarrow>
          (let errorMessage = or_else d msg_unknown_server_error
           in if st = 400 then JsError Error (tag_input_error @ ascii '': '' @ errorMessage)
              else if st = 500 then JsError Error (tag_server_error @ ascii '': '' @ errorMessage)
              else JsError Error (ascii ''HTTP '' @ show_nat st @ ascii '': '' @ errorMessage)))"

text \<open>The message chosen by the \<open>catch\<close> callback, lines 344-349.\<close>

definition userFriendlyMessage :: "js_error \<Rightarrow> jsstring" where
  "userFriendlyMessage e =
     (if name e = AbortError then msg_timeout
      else if name e = TypeError \<and> js_includes (message e) (ascii ''fetch'') then msg_unreachable
      else if js_includes (message e) tag_input_error then message e
      else if js_includes (message e) tag_server_error then msg_server_failed
      else msg_unknown_error)"

text \<open>The \<open>catch\<close> callback, lines 340-352.\<close>

definition on_catch :: "js_error \<Rightarrow> regular_flow \<Rightarrow> regular_flow" where
  "on_catch e f =
     f\<lparr>progressInterval := None,
       doc := updateStatus (userFriendlyMessage e) StError False
                ((hideProgress (doc f))\<lparr>output_textContent := userFriendlyMessage e\<rparr>)\<rparr>"

text \<open>The \<open>finally\<close> callback, lines 353-361.\<close>

definition on_finally :: "regular_flow \<Rightarrow> regular_flow" where
  "on_finally f =
     (let u1 = (doc f)\<lparr>translate_disabled := False, input_contenteditable := True\<rparr>;
          u2 = (if translate_disabled u1 = False then updateStatus msg_ready StSuccess False u1
                else u1)
      in f\<lparr>progressInterval := None, timeoutId := None, phase := Settled, doc := u2\<rparr>)"

text \<open>
  The second \<open>then\<close> callback, lines 328-339. An absent \<open>translated_text\<close> is
  \<open>undefined\<close>, which \<open>textContent\<close> takes as the empty text; \<open>null\<close> as the body
  throws, after the two progress updates.
\<close>

definition on_data :: "json \<Rightarrow> regular_flow \<Rightarrow> regular_flow" where
  "on_data data_v f =
     (let u1 = showProgress msg_showing_result (updateProgressBar 90 (doc f))
      in case get_prop (ascii ''translated_text'') data_v of
           Inl e \<Rightarrow> on_catch e (f\<lparr>doc := u1\<rparr>)
         | Inr t \<Rightarrow>
             (let u2 = u1\<lparr>output_textContent := (case t of None \<Rightarrow> [] | Some s \<Rightarrow> s)\<rparr>;
                  u3 = setItem (ascii ''lastUsedModel'') (selectedModel f)
                         (setItem (ascii ''lastUsedProvider'') (selectedProvider f) u2)
              in f\<lparr>doc := updateProgressBar 100 u3, completionTimer := Some 500\<rparr>))"

text \<open>The delayed completion notice, lines 335-338.\<close>

definition on_completion :: "regular_flow \<Rightarrow> regular_flow" where
  "on_completion f =
     f\<lparr>completionTimer := None,
       doc := updateStatus (show_nat (length (inputText f)) @ suffix_translated) StSuccess False
                (hideProgress (doc f))\<rparr>"

text \<open>
  What can happen to an attempt. A step is \<open>None\<close> when the event cannot occur in that
  state: a timer that is not pending does not fire, and a promise settles once. Aborting the
  controller rejects the pending request with an \<open>AbortError\<close> (its message, which the
  script never shows, in Chrome's wording), and the \<open>catch\<close> and \<open>finally\<close> callbacks
  run before any other event.
\<close>

datatype regular_event =
    IntervalFires
  | TimeoutFires
  | CompletionFires
  | FetchResolves nat
  | FetchRejects js_error
  | JsonResolves json
  | JsonRejects js_error

definition abort_error :: js_error where
  "abort_error = JsError AbortError (ascii ''signal is aborted without reason'')"

fun regular_step :: "regular_event \<Rightarrow> regular_flow \<Rightarrow> regular_flow option" where
  "regular_step IntervalFires f =
     (if progressInterval f = None then None else Some (on_interval f))"
| "regular_step TimeoutFires f =
     (if timeoutId f = None then None
      else if phase f = AwaitFetch then Some (on_finally (on_catch abort_error (on_timeout f)))
      else Some (on_timeout f))"
| "regular_step CompletionFires f =
     (if completionTimer f = None then None else Some (on_completion f))"
| "regular_step (FetchResolves st) f =
     (if phase f = AwaitFetch then Some (on_response st f) else None)"
| "regular_step (FetchRejects e) f =
     (if phase f = AwaitFetch then Some (on_finally (on_catch e f)) else None)"
| "regular_step (JsonResolves j) f =
     (case phase f of
        AwaitBody st \<Rightarrow>
          Some (on_finally (if ok st then on_data j f else on_catch (http_error st j) f))
      | _ \<Rightarrow> None)"
| "regular_step (JsonRejects e) f =
     (case phase f of AwaitBody st \<Rightarrow> Some (on_finally (on_catch e f)) | _ \<Rightarrow> None)"

fun regular_run :: "regular_event list \<Rightarrow> regular_flow \<Rightarrow> regular_flow option" where
  "regular_run [] f = Some f"
| "regular_run (ev # evs) f =
     (case regular_step ev f of None \<Rightarrow> None | Some f' \<Rightarrow> regular_run evs f')"


subsection \<open>Streaming translation\<close>

text \<open>
  \<open>handleStreamTranslation\<close>, lines 364-440: one \<open>async\<close> function that waits for the
  response, then either for the text of an error body or for the chunks of the stream.
\<close>

datatype stream_phase = StreamAwaitFetch | StreamAwaitText | StreamReading | StreamSettled

record stream_flow =
  sdoc :: ui
  saborted :: bool
  sphase :: stream_phase

text \<open>Lines 365-401: the validation, then the controls, the listener and the request.\<close>

definition handleStreamTranslation :: "ui \<Rightarrow> ui + stream_flow" where
  "handleStreamTranslation u =
     (if trim (input_innerText u) = [] then Inl (updateStatus msg_enter_text StError False u)
      else
        (let u1 = u\<lparr>translate_disabled := True, input_contenteditable := False,
                    output_textContent := []\<rparr>;
             u2 = updateStatus msg_streaming StLoading True u1;
             u3 = u2\<lparr>beforeunload := beforeunload u2 + 1\<rparr>;
             u4 = u3\<lparr>calls := calls u3 @ [TranslateStreamCall (request_body u)]\<rparr>
         in Inr \<lparr>sdoc = u4, saborted = False, sphase = StreamAwaitFetch\<rparr>))"

text \<open>The \<open>catch\<close> block, lines 425-433, and the \<open>finally\<close> block, lines 434-439.\<close>

definition stream_catch :: "js_error \<Rightarrow> stream_flow \<Rightarrow> stream_flow" where
  "stream_catch e f =
     (if name e = AbortError
      then f\<lparr>sdoc := updateStatus msg_cancelled_status StWarning False
                       ((sdoc f)\<lparr>output_textContent := msg_cancelled\<rparr>)\<rparr>
      else f\<lparr>sdoc := updateStatus (prefix_error @ message e) StError False
                       ((sdoc f)\<lparr>output_textContent := prefix_error @ message e\<rparr>)\<rparr>)"

definition stream_finally :: "stream_flow \<Rightarrow> stream_flow" where
  "stream_finally f =
     f\<lparr>sphase := StreamSettled,
       sdoc := (sdoc f)\<lparr>beforeunload := beforeunload (sdoc f) - 1,
                        translate_disabled := False, input_contenteditable := True\<rparr>\<rparr>"

text \<open>
  Lines 403-406: the body of a response that is not OK is read as text and handed to
  \<open>JSON.parse\<close>, which is the browser's and a parameter here: it returns the value or the
  \<open>SyntaxError\<close> it throws.
\<close>

definition stream_error :: "(jsstring \<Rightarrow> js_error + json) \<Rightarrow> jsstring \<Rightarrow> js_error" where
  "stream_error JSON_parse errorText =
     (case JSON_parse errorText of
        Inl e \<Rightarrow> e
      | Inr j \<Rightarrow>
          (case get_prop (ascii ''detail'') j of
             Inl e \<Rightarrow> e
           | Inr d \<Rightarrow> JsError Error (or_else d msg_stream_failed)))"

text \<open>One pass of the reading loop with a chunk, lines 416-417; the chunk is the decoded text.\<close>

definition stream_append :: "jsstring \<Rightarrow> stream_flow \<Rightarrow> stream_flow" where
  "stream_append chunk f =
     f\<lparr>sdoc := (sdoc f)\<lparr>output_textContent := output_textContent (sdoc f) @ chunk\<rparr>\<rparr>"

text \<open>
  The events of a streaming attempt. \<open>Unload\<close> is the \<open>beforeunload\<close> event reaching the
  listener of line 389, which aborts the controller; whatever the function is waiting for
  is then rejected with an \<open>AbortError\<close>.
\<close>

datatype stream_event =
    StreamResolves nat
  | StreamRejects js_error
  | TextResolves jsstring
  | TextRejects js_error
  | ReadChunk jsstring
  | ReadDone
  | ReadRejects js_error
  | Unload

fun stream_step ::
    "(jsstring \<Rightarrow> js_error + json) \<Rightarrow> stream_event \<Rightarrow> stream_flow \<Rightarrow> stream_flow option" where
  "stream_step P (StreamResolves st) f =
     (if sphase f = StreamAwaitFetch
      then Some (f\<lparr>sphase := (if ok st then StreamReading else StreamAwaitText)\<rparr>)
      else None)"
| "stream_step P (StreamRejects e) f =
     (if sphase f = StreamAwaitFetch then Some (stream_finally (stream_catch e f)) else None)"
| "stream_step P (TextResolves errorText) f =
     (if sphase f = StreamAwaitText
      then Some (stream_finally (stream_catch (stream_error P errorText) f))
      else None)"
| "stream_step P (TextRejects e) f =
     (if sphase f = StreamAwaitText then Some (stream_finally (stream_catch e f)) else None)"
| "stream_step P (ReadChunk chunk) f =
     (if sphase f = StreamReading then Some (stream_append chunk f) else None)"
| "stream_step P ReadDone f =
     (if sphase f = StreamReading
      then Some (stream_finally (f\<lparr>sdoc := updateStatus msg_stream_done StSuccess False (sdoc f)\<rparr>))
      else None)"
| "stream_step P (ReadRejects e) f =
     (if sphase f = StreamReading then Some (stream_finally (stream_catch e f)) else None)"
| "stream_step P Unload f =
     (if sphase f = StreamSettled then None
      else Some (stream_finally (stream_catch abort_error (f\<lparr>saborted := True\<rparr>))))"

fun stream_run ::
    "(jsstring \<Rightarrow> js_error + json) \<Rightarrow> stream_event list \<Rightarrow> stream_flow \<Rightarrow> stream_flow option" where
  "stream_run P [] f = Some f"
| "stream_run P (ev # evs) f =
     (case stream_step P ev f of None \<Rightarrow> None | Some f' \<Rightarrow> stream_run P evs f')"

text \<open>The \<open>click\<close> listener of the translate button, lines 247-254.\<close>

datatype attempt = Rejected ui | Regular regular_flow | Streaming stream_flow

definition translate_click :: "ui \<Rightarrow> attempt" where
  "translate_click u =
     (if streaming_checked u
      then (case handleStreamTranslation u of Inl u' \<Rightarrow> Rejected u' | Inr f \<Rightarrow> Streaming f)
      else (case handleRegularTranslation u of Inl u' \<Rightarrow> Rejected u' | Inr f \<Rightarrow> Regular f))"


section \<open>Example inputs\<close>

definition video0 :: video_ref where
  "video0 = \<lparr>videoId = ascii ''dQw4'', videoTitle = ascii ''A <b>title</b>'', fullUrl = ascii ''https://www.youtube.com/watch?v=dQw4''\<rparr>"

definition tab0 :: tab where
  "tab0 = \<lparr>tab_url = \<lparr>page = ascii ''translator_ui.html'', searchParams = []\<rparr>, active = False\<rparr>"

definition ui0 :: ui where
  "ui0 = \<lparr>input_innerText = ascii ''Hello <world>'', input_innerHTML = [],
          input_contenteditable = True, output_textContent = ascii ''old'',
          translate_disabled = False, status_text = [], status_class = StInfo,
          status_display = DisplayNone, spinner_display = False, hideTimeout = False,
          progress_text = [], progress_display = False, progress_width = 0,
          model_options = [ascii ''models/gemini-pro''], model_value = ascii ''models/gemini-pro'',
          provider_options = [ascii ''gemini'', ascii ''openai''], provider_value = ascii ''gemini'',
          language_value = ascii ''ko'', notification_checked = False,
          timestamp_checked = False, streaming_checked = False,
          localStorage = Map.empty, beforeunload = 0, calls = []\<rparr>"

definition blank_input :: jsstring where
  "blank_input = [0x20, 0xA, 0x9, 0x3000]"

definition hello_fragments :: "jsstring list" where
  "hello_fragments = [[0xC548], [0xB155], [0xD558, 0xC138, 0xC694]]"

definition no_json :: "jsstring \<Rightarrow> js_error + json" where
  "no_json t = Inl (JsError SyntaxError (ascii ''Unexpected token'' @ t))"

definition detail_json :: "jsstring \<Rightarrow> js_error + json" where
  "detail_json t = Inr (JObject [(ascii ''detail'', t)])"

definition quota_body :: json where
  "quota_body = JObject [(ascii ''detail'', ascii ''quota'')]"

definition empty_text_body :: json where
  "empty_text_body = JObject [(ascii ''detail'', ascii ''empty text'')]"

definition translated_body :: json where
  "translated_body = JObject [(ascii ''translated_text'', [0xC548, 0xB155])]"

definition markup_title :: jsstring where
  "markup_title = ascii ''<img src=x onerror=alert(1)>''"

definition transcript_body :: json where
  "transcript_body = JObject [(ascii ''transcript'', ascii ''a<b & c>d'')]"

definition missing_body :: json where
  "missing_body = JObject [(ascii ''detail'', ascii ''No transcript'')]"

definition failed_fetch :: fetch_json where
  "failed_fetch = FetchRejected (JsError TypeError (ascii ''Failed to fetch''))"

definition plain_text_500 :: fetch_json where
  "plain_text_500 = FetchResponded 500 (Inl (JsError SyntaxError (ascii ''Unexpected token'')))"

definition surrogate_video :: video_ref where
  "surrogate_video = \<lparr>videoId = ascii ''dQw4'', videoTitle = [0x61, 0xD800, 0x62],
                       fullUrl = ascii ''https://y''\<rparr>"


section \<open>Auxiliary facts\<close>

lemma dropWhile_all_iff: "(\<forall>x\<in>set (dropWhile P xs). P x) \<longleftrightarrow> (\<forall>x\<in>set xs. P x)"
proof
  assume a: "\<forall>x\<in>set (dropWhile P xs). P x"
  have "dropWhile P xs = []"
  proof (rule ccontr)
    assume n: "dropWhile P xs \<noteq> []"
    then have "\<not> P (hd (dropWhile P xs))" by (rule hd_dropWhile)
    moreover from n have "hd (dropWhile P xs) \<in> set (dropWhile P xs)" by simp
    ultimately show False using a by blast
  qed
  then show "\<forall>x\<in>set xs. P x" by simp
next
  assume "\<forall>x\<in>set xs. P x"
  then show "\<forall>x\<in>set (dropWhile P xs). P x" by (auto dest: set_dropWhileD)
qed

lemma trim_empty_iff: "trim s = [] \<longleftrightarrow> (\<forall>c\<in>set s. is_js_space c)"
  by (simp add: trim_def dropWhile_all_iff)

lemma updateStatus_fields [simp]:
  "calls (updateStatus m t s u) = calls u"
  "translate_disabled (updateStatus m t s u) = translate_disabled u"
  "input_contenteditable (updateStatus m t s u) = input_contenteditable u"
  "output_textContent (updateStatus m t s u) = output_textContent u"
  "localStorage (updateStatus m t s u) = localStorage u"
  "beforeunload (updateStatus m t s u) = beforeunload u"
  "input_innerHTML (updateStatus m t s u) = input_innerHTML u"
  "status_text (updateStatus m t s u) = m"
  "status_class (updateStatus m t s u) = t"
  by (simp_all add: updateStatus_def Let_def)

lemma stream_start_fields:
  assumes "handleStreamTranslation u = Inr f0"
  shows "sphase f0 = StreamAwaitFetch" "output_textContent (sdoc f0) = []"
    "beforeunload (sdoc f0) = beforeunload u + 1"
  using assms by (auto simp: handleStreamTranslation_def Let_def split: if_splits)

lemma stream_run_append:
  "stream_run P (xs @ ys) f = (case stream_run P xs f of None \<Rightarrow> None | Some g \<Rightarrow> stream_run P ys g)"
  by (induction xs arbitrary: f) (auto split: option.splits)

lemma stream_run_chunks:
  "sphase f = StreamReading \<Longrightarrow>
     stream_run P (map ReadChunk cs) f
       = Some (f\<lparr>sdoc := (sdoc f)\<lparr>output_textContent := output_textContent (sdoc f) @ concat cs\<rparr>\<rparr>)"
proof (induction cs arbitrary: f)
  case Nil
  then show ?case by simp
next
  case (Cons c cs)
  have "sphase (stream_append c f) = StreamReading"
    using Cons.prems by (simp add: stream_append_def)
  from Cons.IH [OF this] Cons.prems show ?case
    by (simp add: stream_append_def)
qed

lemma stream_finally_fields [simp]:
  "output_textContent (sdoc (stream_finally f)) = output_textContent (sdoc f)"
  "sphase (stream_finally f) = StreamSettled"
  "translate_disabled (sdoc (stream_finally f)) = False"
  "input_contenteditable (sdoc (stream_finally f)) = True"
  "beforeunload (sdoc (stream_finally f)) = beforeunload (sdoc f) - 1"
  "status_text (sdoc (stream_finally f)) = status_text (sdoc f)"
  by (simp_all add: stream_finally_def)

lemma ui0_stream_start:
  "\<exists>f0. handleStreamTranslation ui0 = Inr f0"
  by (simp add: handleStreamTranslation_def ui0_def Let_def trim_def is_js_space_def ascii_def)

lemma stream_catch_output:
  "output_textContent (sdoc (stream_catch e f))
     = (if name e = AbortError then msg_cancelled else prefix_error @ message e)"
  "status_text (sdoc (stream_catch e f))
     = (if name e = AbortError then msg_cancelled_status else prefix_error @ message e)"
  "beforeunload (sdoc (stream_catch e f)) = beforeunload (sdoc f)"
  "sphase (stream_catch e f) = sphase f"
  by (simp_all add: stream_catch_def)

lemma stream_error_run:
  assumes start: "handleStreamTranslation u = Inr f0" and st: "\<not> ok st"
  shows "stream_run P [StreamResolves st, TextResolves errorText] f0
     = Some (stream_finally (stream_catch (stream_error P errorText) (f0\<lparr>sphase := StreamAwaitText\<rparr>)))"
  using stream_start_fields(1) [OF start] st by simp

lemma regular_start_fields:
  assumes "handleRegularTranslation u = Inr f0"
  shows "phase f0 = AwaitFetch" "timeoutId f0 = Some 180000" "progressInterval f0 = Some 1000"
    "completionTimer f0 = None" "aborted f0 = False" "inputText f0 = input_innerText u"
    "selectedProvider f0 = provider_value u" "selectedModel f0 = model_value u"
    "calls (doc f0) = calls u @ [TranslateCall (request_body u)]"
    "localStorage (doc f0) = localStorage u"
    "translate_disabled (doc f0) = True" "input_contenteditable (doc f0) = False"
  using assms
  by (auto simp: handleRegularTranslation_def Let_def updateProgressBar_def showProgress_def
      split: if_splits)

lemma on_finally_fields [simp]:
  "phase (on_finally f) = Settled" "timeoutId (on_finally f) = None"
  "progressInterval (on_finally f) = None" "completionTimer (on_finally f) = completionTimer f"
  "aborted (on_finally f) = aborted f"
  "translate_disabled (doc (on_finally f)) = False"
  "input_contenteditable (doc (on_finally f)) = True"
  "output_textContent (doc (on_finally f)) = output_textContent (doc f)"
  "localStorage (doc (on_finally f)) = localStorage (doc f)"
  "calls (doc (on_finally f)) = calls (doc f)"
  by (simp_all add: on_finally_def Let_def)

lemma on_catch_fields [simp]:
  "phase (on_catch e f) = phase f" "timeoutId (on_catch e f) = timeoutId f"
  "progressInterval (on_catch e f) = None" "completionTimer (on_catch e f) = completionTimer f"
  "aborted (on_catch e f) = aborted f"
  "translate_disabled (doc (on_catch e f)) = translate_disabled (doc f)"
  "input_contenteditable (doc (on_catch e f)) = input_contenteditable (doc f)"
  "output_textContent (doc (on_catch e f)) = userFriendlyMessage e"
  "localStorage (doc (on_catch e f)) = localStorage (doc f)"
  "calls (doc (on_catch e f)) = calls (doc f)"
  by (simp_all add: on_catch_def hideProgress_def)

lemma on_timeout_fields [simp]:
  "phase (on_timeout f) = phase f" "timeoutId (on_timeout f) = None"
  "progressInterval (on_timeout f) = progressInterval f"
  "completionTimer (on_timeout f) = completionTimer f"
  "aborted (on_timeout f) = True"
  "translate_disabled (doc (on_timeout f)) = False"
  "input_contenteditable (doc (on_timeout f)) = True"
  "status_text (doc (on_timeout f)) = msg_timeout_status"
  "localStorage (doc (on_timeout f)) = localStorage (doc f)"
  "calls (doc (on_timeout f)) = calls (doc f)"
  by (simp_all add: on_timeout_def hideProgress_def)

lemma on_interval_fields [simp]:
  "phase (on_interval f) = phase f" "timeoutId (on_interval f) = timeoutId f"
  "progressInterval (on_interval f) = progressInterval f"
  "completionTimer (on_interval f) = completionTimer f"
  "aborted (on_interval f) = aborted f"
  "translate_disabled (doc (on_interval f)) = translate_disabled (doc f)"
  "input_contenteditable (doc (on_interval f)) = input_contenteditable (doc f)"
  "output_textContent (doc (on_interval f)) = output_textContent (doc f)"
  "localStorage (doc (on_interval f)) = localStorage (doc f)"
  "calls (doc (on_interval f)) = calls (doc f)"
  by (simp_all add: on_interval_def Let_def updateProgressBar_def showProgress_def)

lemma on_response_fields [simp]:
  "phase (on_response st f) = AwaitBody st" "timeoutId (on_response st f) = None"
  "progressInterval (on_response st f) = progressInterval f"
  "completionTimer (on_response st f) = completionTimer f"
  "aborted (on_response st f) = aborted f"
  "translate_disabled (doc (on_response st f)) = translate_disabled (doc f)"
  "input_contenteditable (doc (on_response st f)) = input_contenteditable (doc f)"
  "output_textContent (doc (on_response st f)) = output_textContent (doc f)"
  "localStorage (doc (on_response st f)) = localStorage (doc f)"
  "calls (doc (on_response st f)) = calls (doc f)"
  "selectedProvider (on_response st f) = selectedProvider f"
  "selectedModel (on_response st f) = selectedModel f"
  by (simp_all add: on_response_def updateProgressBar_def showProgress_def)

lemma on_completion_fields [simp]:
  "phase (on_completion f) = phase f" "timeoutId (on_completion f) = timeoutId f"
  "progressInterval (on_completion f) = progressInterval f"
  "completionTimer (on_completion f) = None"
  "aborted (on_completion f) = aborted f"
  "translate_disabled (doc (on_completion f)) = translate_disabled (doc f)"
  "input_contenteditable (doc (on_completion f)) = input_contenteditable (doc f)"
  "output_textContent (doc (on_completion f)) = output_textContent (doc f)"
  "localStorage (doc (on_completion f)) = localStorage (doc f)"
  "calls (doc (on_completion f)) = calls (doc f)"
  by (simp_all add: on_completion_def hideProgress_def)

lemma on_data_fields [simp]:
  "phase (on_data j f) = phase f" "timeoutId (on_data j f) = timeoutId f"
  "aborted (on_data j f) = aborted f"
  "translate_disabled (doc (on_data j f)) = translate_disabled (doc f)"
  "input_contenteditable (doc (on_data j f)) = input_contenteditable (doc f)"
  "calls (doc (on_data j f)) = calls (doc f)"
  by (simp_all add: on_data_def Let_def updateProgressBar_def showProgress_def setItem_def
      split: sum.splits)

lemma regular_step_settled:
  assumes "regular_step ev f = Some f'"
    and "phase f = Settled \<longrightarrow> timeoutId f = None \<and> progressInterval f = None
           \<and> \<not> translate_disabled (doc f) \<and> input_contenteditable (doc f)"
  shows "phase f' = Settled \<longrightarrow> timeoutId f' = None \<and> progressInterval f' = None
           \<and> \<not> translate_disabled (doc f') \<and> input_contenteditable (doc f')"
  using assms by (cases ev) (auto split: if_splits regular_phase.splits)

lemma regular_run_settled:
  assumes "regular_run evs f = Some f'"
    and "phase f = Settled \<longrightarrow> timeoutId f = None \<and> progressInterval f = None
           \<and> \<not> translate_disabled (doc f) \<and> input_contenteditable (doc f)"
  shows "phase f' = Settled \<longrightarrow> timeoutId f' = None \<and> progressInterval f' = None
           \<and> \<not> translate_disabled (doc f') \<and> input_contenteditable (doc f')"
  using assms
proof (induction evs arbitrary: f)
  case Nil
  then show ?case by simp
next
  case (Cons ev evs)
  from Cons.prems(1) obtain f1 where s: "regular_step ev f = Some f1"
    and r: "regular_run evs f1 = Some f'"
    by (auto split: option.splits)
  from regular_step_settled [OF s Cons.prems(2)] Cons.IH [OF r] show ?case by blast
qed

lemma stream_step_settled:
  assumes "stream_step P ev g = Some g'"
    and "if sphase g = StreamSettled
         then beforeunload (sdoc g) = n \<and> \<not> translate_disabled (sdoc g)
              \<and> input_contenteditable (sdoc g)
         else beforeunload (sdoc g) = n + 1"
  shows "if sphase g' = StreamSettled
         then beforeunload (sdoc g') = n \<and> \<not> translate_disabled (sdoc g')
              \<and> input_contenteditable (sdoc g')
         else beforeunload (sdoc g') = n + 1"
  using assms
  by (cases ev) (auto simp: stream_catch_output stream_append_def split: if_splits)

lemma stream_run_settled:
  assumes "stream_run P evs g = Some g'"
    and "if sphase g = StreamSettled
         then beforeunload (sdoc g) = n \<and> \<not> translate_disabled (sdoc g)
              \<and> input_contenteditable (sdoc g)
         else beforeunload (sdoc g) = n + 1"
  shows "if sphase g' = StreamSettled
         then beforeunload (sdoc g') = n \<and> \<not> translate_disabled (sdoc g')
              \<and> input_contenteditable (sdoc g')
         else beforeunload (sdoc g') = n + 1"
  using assms
proof (induction evs arbitrary: g)
  case Nil
  then show ?case by (auto split: if_splits)
next
  case (Cons ev evs)
  from Cons.prems(1) obtain g1 where s: "stream_step P ev g = Some g1"
    and r: "stream_run P evs g1 = Some g'"
    by (auto split: option.splits)
  from Cons.IH [OF r stream_step_settled [OF s Cons.prems(2)]] show ?case .
qed

lemma ui0_regular_start:
  "\<exists>f0. handleRegularTranslation ui0 = Inr f0"
  by (simp add: handleRegularTranslation_def ui0_def Let_def trim_def is_js_space_def ascii_def
      js_includes_def label_loading_def label_none_def sublist_code(3))

lemma ticks_fields:
  "phase ((on_interval ^^ n) f) = phase f"
  "timeoutId ((on_interval ^^ n) f) = timeoutId f"
  "progressInterval ((on_interval ^^ n) f) = progressInterval f"
  "aborted ((on_interval ^^ n) f) = aborted f"
  by (induction n) simp_all

lemma regular_run_ticks:
  "progressInterval f \<noteq> None \<Longrightarrow>
     regular_run (replicate n IntervalFires) f = Some ((on_interval ^^ n) f)"
proof (induction n arbitrary: f)
  case 0
  then show ?case by simp
next
  case (Suc n)
  from Suc.prems have "progressInterval (on_interval f) \<noteq> None" by simp
  from Suc.IH [OF this] Suc.prems show ?case
    by (simp add: funpow_swap1)
qed

lemma regular_run_append:
  "regular_run (xs @ ys) f
     = (case regular_run xs f of None \<Rightarrow> None | Some g \<Rightarrow> regular_run ys g)"
  by (induction xs arbitrary: f) (auto split: option.splits)

lemma regular_timeout_run:
  assumes start: "handleRegularTranslation u = Inr f0"
  shows "regular_run (replicate n IntervalFires @ [TimeoutFires]) f0
     = Some (on_finally (on_catch abort_error (on_timeout ((on_interval ^^ n) f0))))"
proof -
  have "progressInterval f0 \<noteq> None"
    using regular_start_fields(3) [OF start] by simp
  then have "regular_run (replicate n IntervalFires) f0 = Some ((on_interval ^^ n) f0)"
    by (rule regular_run_ticks)
  moreover have "timeoutId ((on_interval ^^ n) f0) \<noteq> None" "phase ((on_interval ^^ n) f0) = AwaitFetch"
    using regular_start_fields(1,2) [OF start] by (simp_all add: ticks_fields)
  ultimately show ?thesis
    by (simp add: regular_run_append)
qed

lemma regular_body_run:
  assumes start: "handleRegularTranslation u = Inr f0"
  shows "regular_run [FetchResolves st, JsonResolves j] f0
     = Some (on_finally (if ok st then on_data j (on_response st f0)
                         else on_catch (http_error st j) (on_response st f0)))"
  using regular_start_fields(1) [OF start] by simp

lemma regular_reject_run:
  assumes start: "handleRegularTranslation u = Inr f0"
  shows "regular_run [FetchRejects e] f0 = Some (on_finally (on_catch e f0))"
  using regular_start_fields(1) [OF start] by simp

lemma abort_error_friendly: "userFriendlyMessage abort_error = msg_timeout"
  by (simp add: userFriendlyMessage_def abort_error_def)

lemma on_finally_status: "status_text (doc (on_finally f)) = msg_ready"
  by (simp add: on_finally_def Let_def)

lemma messages_distinct:
  "msg_timeout \<noteq> msg_unreachable" "msg_timeout \<noteq> msg_unknown_error"
  "msg_timeout \<noteq> msg_server_failed" "msg_server_failed \<noteq> msg_unknown_error"
  "msg_server_failed \<noteq> msg_unreachable"
  by (simp_all add: msg_timeout_def msg_unreachable_def msg_unknown_error_def msg_server_failed_def)

lemma http_error_message:
  assumes "get_prop (ascii ''detail'') err = Inr d"
  shows "http_error st err = JsError Error
     (if st = 400 then tag_input_error @ ascii '': '' @ or_else d msg_unknown_server_error
      else if st = 500 then tag_server_error @ ascii '': '' @ or_else d msg_unknown_server_error
      else ascii ''HTTP '' @ show_nat st @ ascii '': '' @ or_else d msg_unknown_server_error)"
  using assms by (simp add: http_error_def Let_def)

lemma includes_own_prefix: "js_includes (t @ s) t"
  by (simp add: js_includes_def)

lemma friendly_input_error:
  "userFriendlyMessage (JsError Error (tag_input_error @ s)) = tag_input_error @ s"
  by (simp add: userFriendlyMessage_def includes_own_prefix)

lemma friendly_server_error:
  "\<not> js_includes (tag_server_error @ s) tag_input_error \<Longrightarrow>
     userFriendlyMessage (JsError Error (tag_server_error @ s)) = msg_server_failed"
  by (simp add: userFriendlyMessage_def includes_own_prefix)

lemma quota_has_no_input_tag:
  "\<not> js_includes (tag_server_error @ ascii '': '' @ ascii ''quota'') tag_input_error"
  by (simp add: js_includes_def tag_server_error_def tag_input_error_def ascii_def sublist_code(3))

lemma server_failed_hides_quota: "\<not> js_includes msg_server_failed (ascii ''quota'')"
  by (simp add: js_includes_def msg_server_failed_def ascii_def sublist_code(3))

lemma not_ok_500: "\<not> ok 500" "\<not> ok 400" "ok 200"
  by (simp_all add: ok_def)

lemma replace_all_append:
  "replace_all c r (xs @ ys) = replace_all c r xs @ replace_all c r ys"
  by (simp add: replace_all_def)

lemma replace_all_Cons:
  "replace_all c r (x # xs) = (if x = c then r else [x]) @ replace_all c r xs"
  by (simp add: replace_all_def)

lemma replace_all_Nil: "replace_all c r [] = []"
  by (simp add: replace_all_def)

lemma escape_transcript_Cons:
  "escape_transcript (x # t) = html_entity x @ escape_transcript t"
  by (simp add: escape_transcript_def html_entity_def replace_all_Cons replace_all_append
      replace_all_Nil ascii_def)

lemma escape_transcript_entities: "escape_transcript t = concat (map html_entity t)"
proof (induction t)
  case Nil
  then show ?case by (simp add: escape_transcript_def replace_all_Nil)
next
  case (Cons x t)
  then show ?case by (simp add: escape_transcript_Cons)
qed

lemma escape_transcript_no_markup:
  "0x3C \<notin> set (escape_transcript t)" "0x3E \<notin> set (escape_transcript t)"
  by (induction t) (auto simp: escape_transcript_entities html_entity_def ascii_def)

lemma transcript_success:
  assumes "ok st" "get_prop (ascii ''transcript'') j = Inr (Some t)"
  shows "transcript_try (Some title) furl (FetchResponded st (Inr j))
     = Inr (titleHTML title @ urlHTML furl @ escape_transcript t)"
  using assms by (simp add: transcript_try_def)

lemma transcript_failure:
  assumes "\<not> ok st" "get_prop (ascii ''detail'') j = Inr d"
  shows "transcript_try (Some title) furl (FetchResponded st (Inr j))
     = Inl (JsError Error (or_else d msg_transcript_unavailable))"
  using assms by (simp add: transcript_try_def)

lemma transcript_settled_html:
  "\<exists>u'. fetchAndDisplayTranscript vid (Some title) furl r u = Inr u'
     \<and> input_innerHTML u' =
         (case transcript_try (Some title) furl r of
            Inr html \<Rightarrow> html
          | Inl e \<Rightarrow> titleHTML title @ urlHTML furl @ errorHTML (message e))"
  by (simp add: fetchAndDisplayTranscript_def fetchAndDisplayTranscript_settled_def
      split: sum.splits)

lemma dropWhile_keeps:
  "x \<in> set xs \<Longrightarrow> \<not> P x \<Longrightarrow> x \<in> set (dropWhile P xs)"
  by (induction xs) auto

lemma trim_keeps: "c \<in> set s \<Longrightarrow> \<not> is_js_space c \<Longrightarrow> c \<in> set (trim s)"
  by (simp add: trim_def dropWhile_keeps)

lemma angle_not_space: "\<not> is_js_space 0x3C" "\<not> is_js_space 0x3E"
  by (simp_all add: is_js_space_def)

lemma transcript_try_shape:
  "transcript_try (Some title) furl r = Inr html \<Longrightarrow>
     \<exists>rest. html = titleHTML title @ urlHTML furl @ rest"
  by (auto simp: transcript_try_def split: fetch_json.splits sum.splits if_splits option.splits)

lemma setItem_get [simp]:
  "getItem k (setItem k v u) = Some v"
  "k' \<noteq> k \<Longrightarrow> getItem k' (setItem k v u) = getItem k' u"
  by (simp_all add: getItem_def setItem_def)

lemma models_start_fields [simp]:
  "localStorage (loadModelsForProvider_start p m u) = localStorage u"
  "calls (loadModelsForProvider_start p m u) = calls u @ [ModelsCall p m]"
  "provider_value (loadModelsForProvider_start p m u) = provider_value u"
  "timestamp_checked (loadModelsForProvider_start p m u) = timestamp_checked u"
  "streaming_checked (loadModelsForProvider_start p m u) = streaming_checked u"
  by (simp_all add: loadModelsForProvider_start_def Let_def set_model_options_def updateStatus_def)

lemma transcript_start_fields [simp]:
  "localStorage (fetchAndDisplayTranscript_start v t f u) = localStorage u"
  "provider_value (fetchAndDisplayTranscript_start v t f u) = provider_value u"
  "provider_options (fetchAndDisplayTranscript_start v t f u) = provider_options u"
  "timestamp_checked (fetchAndDisplayTranscript_start v t f u) = timestamp_checked u"
  "streaming_checked (fetchAndDisplayTranscript_start v t f u) = streaming_checked u"
  by (simp_all add: fetchAndDisplayTranscript_start_def Let_def updateStatus_def)

lemma init_reads:
  "timestamp_checked (DOMContentLoaded loc u) = (getItem (ascii ''show_timestamp'') u = Some (ascii ''true''))"
  "streaming_checked (DOMContentLoaded loc u) = (getItem (ascii ''use_streaming'') u = Some (ascii ''true''))"
  "provider_value (DOMContentLoaded loc u)
     = select_value (provider_options u) (or_else (getItem (ascii ''lastUsedProvider'') u) (ascii ''gemini''))"
  "last (calls (DOMContentLoaded loc u))
     = ModelsCall (or_else (getItem (ascii ''lastUsedProvider'') u) (ascii ''gemini''))
         (getItem (ascii ''lastUsedModel'') u)"
  "localStorage (DOMContentLoaded loc u) = localStorage u"
  by (simp_all add: DOMContentLoaded_def Let_def getItem_def)

lemma change_writes:
  "getItem (ascii ''show_timestamp'') (timestamp_change c loc u) = Some (show_bool c)"
  "getItem (ascii ''use_streaming'') (streaming_change c u) = Some (show_bool c)"
  "localStorage (provider_change v u) = localStorage u"
  "provider_value (provider_change v u) = v"
  by (simp_all add: timestamp_change_def streaming_change_def provider_change_def Let_def
      getItem_def setItem_def)

lemma success_writes:
  assumes start: "handleRegularTranslation u = Inr f0" and st: "ok st"
    and body: "get_prop (ascii ''translated_text'') j = Inr t"
  shows "\<exists>f. regular_run [FetchResolves st, JsonResolves j] f0 = Some f
     \<and> getItem (ascii ''lastUsedProvider'') (doc f) = Some (provider_value u)
     \<and> getItem (ascii ''lastUsedModel'') (doc f) = Some (model_value u)"
proof -
  let ?f = "on_finally (on_data j (on_response st f0))"
  have run: "regular_run [FetchResolves st, JsonResolves j] f0 = Some ?f"
    using regular_body_run [OF start, of st j] st by simp
  have "localStorage (doc (on_data j (on_response st f0)))
      = (localStorage (doc f0))(ascii ''lastUsedProvider'' \<mapsto> provider_value u,
           ascii ''lastUsedModel'' \<mapsto> model_value u)"
    using body regular_start_fields(7,8) [OF start]
    by (simp add: on_data_def Let_def setItem_def updateProgressBar_def showProgress_def)
  then have "getItem (ascii ''lastUsedProvider'') (doc ?f) = Some (provider_value u)"
    "getItem (ascii ''lastUsedModel'') (doc ?f) = Some (model_value u)"
    by (simp_all add: getItem_def ascii_def)
  with run show ?thesis by blast
qed

lemma on_data_storage:
  "dom (localStorage (doc f)) \<subseteq> dom (localStorage (doc (on_data j f)))"
  by (auto simp: on_data_def Let_def setItem_def updateProgressBar_def showProgress_def
      split: sum.splits)

lemma regular_step_storage:
  assumes "regular_step ev f = Some f'"
  shows "dom (localStorage (doc f)) \<subseteq> dom (localStorage (doc f'))"
proof (cases ev)
  case (JsonResolves j)
  note s = assms
  show ?thesis
  proof (cases "phase f")
    case (AwaitBody st)
    with s JsonResolves have "localStorage (doc f')
        = (if ok st then localStorage (doc (on_data j f)) else localStorage (doc f))"
      by auto
    with on_data_storage [of f j] show ?thesis by (simp split: if_splits)
  qed (use s JsonResolves in auto)
qed (use assms in \<open>auto split: if_splits regular_phase.splits\<close>)

lemma stream_step_storage:
  "stream_step P ev g = Some g' \<Longrightarrow> localStorage (sdoc g') = localStorage (sdoc g)"
  by (cases ev) (auto simp: stream_catch_def stream_finally_def stream_append_def split: if_splits)

lemma fade_fields:
  "hideTimeout (doc (on_finally f)) = True"
  "hideTimeout (doc (on_completion f)) = True"
  "hideTimeout (doc (on_interval f)) = hideTimeout (doc f)"
  by (simp_all add: on_finally_def on_completion_def on_interval_def Let_def updateStatus_def
      updateProgressBar_def showProgress_def hideProgress_def)

lemma regular_step_fade:
  assumes "regular_step ev f = Some f'"
    and "phase f = Settled \<longrightarrow> timeoutId f = None \<and> hideTimeout (doc f)"
  shows "phase f' = Settled \<longrightarrow> timeoutId f' = None \<and> hideTimeout (doc f')"
  using assms
  by (cases ev) (auto simp: fade_fields split: if_splits regular_phase.splits)

lemma regular_run_fade:
  assumes "regular_run evs f = Some f'"
    and "phase f = Settled \<longrightarrow> timeoutId f = None \<and> hideTimeout (doc f)"
  shows "phase f' = Settled \<longrightarrow> timeoutId f' = None \<and> hideTimeout (doc f')"
  using assms
proof (induction evs arbitrary: f)
  case Nil
  then show ?case by simp
next
  case (Cons ev evs)
  from Cons.prems(1) obtain f1 where s: "regular_step ev f = Some f1"
    and r: "regular_run evs f1 = Some f'"
    by (auto split: option.splits)
  from Cons.IH [OF r] regular_step_fade [OF s Cons.prems(2)] show ?case by blast
qed

lemma regular_success_run:
  assumes start: "handleRegularTranslation u = Inr f0" and st: "ok st"
    and body: "get_prop (ascii ''translated_text'') j = Inr t"
  shows "\<exists>f. regular_run [FetchResolves st, JsonResolves j] f0 = Some f \<and> phase f = Settled
     \<and> completionTimer f = Some 500 \<and> regular_step CompletionFires f \<noteq> None
     \<and> hideTimeout (doc f)"
proof -
  let ?f = "on_finally (on_data j (on_response st f0))"
  have run: "regular_run [FetchResolves st, JsonResolves j] f0 = Some ?f"
    using regular_body_run [OF start, of st j] st by simp
  have c: "completionTimer (on_data j (on_response st f0)) = Some 500"
    using body by (simp add: on_data_def Let_def)
  then have "completionTimer ?f = Some 500" by simp
  then have "phase ?f = Settled \<and> completionTimer ?f = Some 500
     \<and> regular_step CompletionFires ?f \<noteq> None \<and> hideTimeout (doc ?f)"
    by (simp add: fade_fields)
  with run show ?thesis by blast
qed

lemma stream_done_run:
  assumes start: "handleStreamTranslation u = Inr g0" and st: "ok st"
  shows "\<exists>g. stream_run P (StreamResolves st # map ReadChunk cs @ [ReadDone]) g0 = Some g
     \<and> sphase g = StreamSettled \<and> hideTimeout (sdoc g)"
proof -
  let ?g1 = "g0\<lparr>sphase := StreamReading\<rparr>"
  have o: "stream_step P (StreamResolves st) g0 = Some ?g1"
    using stream_start_fields(1) [OF start] st by simp
  have r: "sphase ?g1 = StreamReading" by simp
  let ?g2 = "?g1\<lparr>sdoc := (sdoc ?g1)\<lparr>output_textContent := output_textContent (sdoc ?g1) @ concat cs\<rparr>\<rparr>"
  have "stream_run P ((StreamResolves st # map ReadChunk cs) @ [ReadDone]) g0
      = stream_step P ReadDone ?g2"
    unfolding stream_run_append using o stream_run_chunks [OF r, of P cs] by simp
  then have "stream_run P (StreamResolves st # map ReadChunk cs @ [ReadDone]) g0
      = Some (stream_finally (?g2\<lparr>sdoc := updateStatus msg_stream_done StSuccess False (sdoc ?g2)\<rparr>))"
    by simp
  moreover have "hideTimeout (sdoc (stream_finally
      (?g2\<lparr>sdoc := updateStatus msg_stream_done StSuccess False (sdoc ?g2)\<rparr>)))"
    by (simp add: stream_finally_def updateStatus_def Let_def)
  ultimately show ?thesis by simp
qed

lemma transcript_try_thrown:
  "transcript_try (Some title) furl (FetchRejected e) = Inl e"
  "transcript_try (Some title) furl (FetchResponded st (Inl e)) = Inl e"
  "\<not> ok st \<Longrightarrow> get_prop (ascii ''detail'') j = Inl e \<Longrightarrow>
     transcript_try (Some title) furl (FetchResponded st (Inr j)) = Inl e"
  by (simp_all add: transcript_try_def)

lemma transcript_markup:
  \<open>titleHTML title @ urlHTML furl @ rest =
     ascii ''<div style="font-size: 20px; font-weight: 500;">'' @ trim title
       @ ascii '' - YouTube</div>''
       @ ascii ''<div style="font-size: 14px; color: #555; margin-bottom: 1em;">''
       @ template furl @ ascii ''</div>'' @ rest\<close>
  \<open>errorHTML msg =
     ascii ''<div style="color: red;">'' @ prefix_transcript_failed @ msg @ ascii ''</div>''\<close>
  by (simp_all add: titleHTML_def urlHTML_def errorHTML_def)

lemma example_markup:
  \<open>ascii ''<div style="font-size: 20px; font-weight: 500;">'' @ trim (ascii ''Title'')
     @ ascii '' - YouTube</div>''
     @ ascii ''<div style="font-size: 14px; color: #555; margin-bottom: 1em;">''
     @ template (Some (ascii ''https://y'')) @ ascii ''</div>'' @ rest
   = ascii ''<div style="font-size: 20px; font-weight: 500;">Title - YouTube</div><div style="font-size: 14px; color: #555; margin-bottom: 1em;">https://y</div>'' @ rest\<close>
  by (simp add: trim_def is_js_space_def template_def ascii_def)


section \<open>Properties of the tab lifecycle manager\<close>

text \<open>
  The stored identifier is never \<open>0\<close>: the only writer tests the identifier before it
  stores it.
\<close>

lemma stored_id_never_zero:
  assumes "translatorTabId b \<noteq> Some 0"
  shows "translatorTabId (onMessage request newId b) \<noteq> Some 0"
    and "translatorTabId (onRemoved tabId b) \<noteq> Some 0"
  using assms
  by (auto simp: onMessage_def reuseOrCreateTab_def createTranslatorTab_def chrome_tabs_update_def
      chrome_tabs_get_def onRemoved_def Let_def split: option.splits sum.splits if_splits)

lemma USVString_ascii_keys:
  "USVString (ascii ''videoId'') = ascii ''videoId''"
  "USVString (ascii ''videoTitle'') = ascii ''videoTitle''"
  "USVString (ascii ''fullUrl'') = ascii ''fullUrl''"
  by (simp_all add: ascii_def is_lead_def is_trail_def)

lemma USVString_well_formed:
  "(\<forall>c\<in>set s. \<not> is_lead c \<and> \<not> is_trail c) \<Longrightarrow> USVString s = s"
  by (induction s rule: USVString.induct) auto

lemma ui_url_value:
  "ui_url v =
     \<lparr>page = ascii ''translator_ui.html'',
      searchParams = [(ascii ''videoId'', USVString (videoId v)),
                      (ascii ''videoTitle'', USVString (videoTitle v)),
                      (ascii ''fullUrl'', USVString (fullUrl v))]\<rparr>"
  by (simp add: ui_url_def ui_page_def searchParams_set_def USVString_ascii_keys)
    (simp add: ascii_def)

lemma ui_url_params:
  "searchParams_get (ascii ''videoId'') (ui_url v) = Some (USVString (videoId v))"
  "searchParams_get (ascii ''videoTitle'') (ui_url v) = Some (USVString (videoTitle v))"
  "searchParams_get (ascii ''fullUrl'') (ui_url v) = Some (USVString (fullUrl v))"
  by (simp_all add: ui_url_value searchParams_get_def USVString_ascii_keys)
    (simp_all add: ascii_def)

text \<open>
  C6. A show-video message carrying a video reference either redirects the tracked
  translator tab, when the stored identifier still names an open tab, to the translator
  page for that video and activates it, opening no tab; or, when nothing is stored or the
  stored identifier names no open tab, opens a new tab on that page and stores its
  identifier. A failed lookup gives exactly the state that no stored identifier gives. The
  address is the page \<open>translator_ui.html\<close> with the parameters \<open>videoId\<close>,
  \<open>videoTitle\<close> and \<open>fullUrl\<close>, each holding its field of the video reference as a
  scalar value string, which is the field itself when it has no surrogate code unit.
\<close>

theorem show_video_reuses_or_creates:
  assumes msg: "action request = ascii ''showVideoId''" "data request = Some v" "videoId v \<noteq> []"
    and fresh: "newId \<noteq> 0" "tabs b newId = None"
    and stored: "translatorTabId b \<noteq> Some 0"
  shows "(\<forall>i t. translatorTabId b = Some i \<and> tabs b i = Some t \<longrightarrow>
            onMessage request newId b =
              b\<lparr>tabs := (tabs b)(i \<mapsto> t\<lparr>tab_url := ui_url v, active := True\<rparr>)\<rparr>
          \<and> dom (tabs (onMessage request newId b)) = dom (tabs b)
          \<and> translatorTabId (onMessage request newId b) = Some i)
     \<and> ((translatorTabId b = None \<or> (\<exists>i. translatorTabId b = Some i \<and> tabs b i = None)) \<longrightarrow>
            onMessage request newId b =
              b\<lparr>tabs := (tabs b)(newId \<mapsto> \<lparr>tab_url = ui_url v, active = True\<rparr>),
                translatorTabId := Some newId\<rparr>)
     \<and> (\<forall>i. tabs b i = None \<longrightarrow>
            onMessage request newId (b\<lparr>translatorTabId := Some i\<rparr>) =
            onMessage request newId (b\<lparr>translatorTabId := None\<rparr>))
     \<and> ui_url v =
           \<lparr>page = ascii ''translator_ui.html'',
            searchParams = [(ascii ''videoId'', USVString (videoId v)),
                            (ascii ''videoTitle'', USVString (videoTitle v)),
                            (ascii ''fullUrl'', USVString (fullUrl v))]\<rparr>
     \<and> searchParams_get (ascii ''videoId'') (ui_url v) = Some (USVString (videoId v))
     \<and> searchParams_get (ascii ''videoTitle'') (ui_url v) = Some (USVString (videoTitle v))
     \<and> searchParams_get (ascii ''fullUrl'') (ui_url v) = Some (USVString (fullUrl v))
     \<and> (\<forall>s. (\<forall>c\<in>set s. \<not> is_lead c \<and> \<not> is_trail c) \<longrightarrow> USVString s = s)"
proof -
  have live: "\<forall>i t. translatorTabId b = Some i \<and> tabs b i = Some t \<longrightarrow>
            onMessage request newId b =
              b\<lparr>tabs := (tabs b)(i \<mapsto> t\<lparr>tab_url := ui_url v, active := True\<rparr>)\<rparr>
          \<and> dom (tabs (onMessage request newId b)) = dom (tabs b)
          \<and> translatorTabId (onMessage request newId b) = Some i"
    using msg stored
    by (auto simp: onMessage_def reuseOrCreateTab_def chrome_tabs_get_def chrome_tabs_update_def)
  have gone: "(translatorTabId b = None \<or> (\<exists>i. translatorTabId b = Some i \<and> tabs b i = None)) \<longrightarrow>
            onMessage request newId b =
              b\<lparr>tabs := (tabs b)(newId \<mapsto> \<lparr>tab_url = ui_url v, active = True\<rparr>),
                translatorTabId := Some newId\<rparr>"
    using msg fresh
    by (auto simp: onMessage_def reuseOrCreateTab_def chrome_tabs_get_def createTranslatorTab_def Let_def)
  have same: "\<forall>i. tabs b i = None \<longrightarrow>
            onMessage request newId (b\<lparr>translatorTabId := Some i\<rparr>) =
            onMessage request newId (b\<lparr>translatorTabId := None\<rparr>)"
    using msg fresh
    by (auto simp: onMessage_def reuseOrCreateTab_def chrome_tabs_get_def createTranslatorTab_def Let_def)
  have wf: "\<forall>s. (\<forall>c\<in>set s. \<not> is_lead c \<and> \<not> is_trail c) \<longrightarrow> USVString s = s"
    using USVString_well_formed by blast
  from live gone same wf ui_url_value [of v] ui_url_params [of v] show ?thesis
    by blast
qed

theorem show_video_reuses_or_creates_witness:
  "onMessage \<lparr>action = ascii ''showVideoId'', data = Some video0\<rparr> 8
     \<lparr>tabs = [7 \<mapsto> tab0], translatorTabId = Some 7\<rparr>
   = \<lparr>tabs = [7 \<mapsto> \<lparr>tab_url = ui_url video0, active = True\<rparr>], translatorTabId = Some 7\<rparr>
   \<and> onMessage \<lparr>action = ascii ''showVideoId'', data = Some video0\<rparr> 8
     \<lparr>tabs = Map.empty, translatorTabId = Some 7\<rparr>
   = \<lparr>tabs = [8 \<mapsto> \<lparr>tab_url = ui_url video0, active = True\<rparr>], translatorTabId = Some 8\<rparr>
   \<and> ui_url video0 =
        \<lparr>page = ascii ''translator_ui.html'',
         searchParams = [(ascii ''videoId'', ascii ''dQw4''),
                         (ascii ''videoTitle'', ascii ''A <b>title</b>''),
                         (ascii ''fullUrl'', ascii ''https://www.youtube.com/watch?v=dQw4'')]\<rparr>
   \<and> searchParams_get (ascii ''videoTitle'') (ui_url surrogate_video) = Some [0x61, 0xFFFD, 0x62]"
proof -
  let ?req = "\<lparr>action = ascii ''showVideoId'', data = Some video0\<rparr>"
  let ?b1 = "\<lparr>tabs = [7 \<mapsto> tab0], translatorTabId = Some 7\<rparr>"
  let ?b2 = "\<lparr>tabs = (Map.empty :: nat \<rightharpoonup> tab), translatorTabId = Some 7\<rparr>"
  have a: "action ?req = ascii ''showVideoId''" and d: "data ?req = Some video0"
    and v: "videoId video0 \<noteq> []" and n: "(8::nat) \<noteq> 0"
    by (simp_all add: video0_def ascii_def)
  have f1: "tabs ?b1 8 = None" and s1: "translatorTabId ?b1 \<noteq> Some 0"
    and f2: "tabs ?b2 8 = None" and s2: "translatorTabId ?b2 \<noteq> Some 0"
    by simp_all
  have l1: "translatorTabId ?b1 = Some 7 \<and> tabs ?b1 7 = Some tab0" by simp
  have l2: "translatorTabId ?b2 = Some 7 \<and> tabs ?b2 7 = None" by simp
  from show_video_reuses_or_creates [OF a d v n f1 s1] l1
  have r1: "onMessage ?req 8 ?b1
      = ?b1\<lparr>tabs := (tabs ?b1)(7 \<mapsto> tab0\<lparr>tab_url := ui_url video0, active := True\<rparr>)\<rparr>"
    by blast
  from show_video_reuses_or_creates [OF a d v n f2 s2] l2
  have r2: "onMessage ?req 8 ?b2
      = ?b2\<lparr>tabs := (tabs ?b2)(8 \<mapsto> \<lparr>tab_url = ui_url video0, active = True\<rparr>),
             translatorTabId := Some 8\<rparr>"
    by blast
  have u0: "USVString (videoId video0) = ascii ''dQw4''"
    "USVString (videoTitle video0) = ascii ''A <b>title</b>''"
    "USVString (fullUrl video0) = ascii ''https://www.youtube.com/watch?v=dQw4''"
    by (simp_all add: video0_def ascii_def is_lead_def is_trail_def)
  from show_video_reuses_or_creates [OF a d v n f1 s1]
  have r3: "ui_url video0 =
        \<lparr>page = ascii ''translator_ui.html'',
         searchParams = [(ascii ''videoId'', ascii ''dQw4''),
                         (ascii ''videoTitle'', ascii ''A <b>title</b>''),
                         (ascii ''fullUrl'', ascii ''https://www.youtube.com/watch?v=dQw4'')]\<rparr>"
    unfolding u0 by blast
  have r12: "onMessage ?req 8 ?b1
      = \<lparr>tabs = [7 \<mapsto> \<lparr>tab_url = ui_url video0, active = True\<rparr>], translatorTabId = Some 7\<rparr>
     \<and> onMessage ?req 8 ?b2
      = \<lparr>tabs = [8 \<mapsto> \<lparr>tab_url = ui_url video0, active = True\<rparr>], translatorTabId = Some 8\<rparr>"
    unfolding r1 r2 by (simp add: tab0_def)
  have a': "action \<lparr>action = ascii ''showVideoId'', data = Some surrogate_video\<rparr>
      = ascii ''showVideoId''"
    and d': "data \<lparr>action = ascii ''showVideoId'', data = Some surrogate_video\<rparr>
      = Some surrogate_video"
    and v': "videoId surrogate_video \<noteq> []"
    by (simp_all add: surrogate_video_def ascii_def)
  have u1: "USVString (videoTitle surrogate_video) = [0x61, 0xFFFD, 0x62]"
    by (simp add: surrogate_video_def is_lead_def is_trail_def)
  from show_video_reuses_or_creates [OF a' d' v' n f1 s1]
  have r4: "searchParams_get (ascii ''videoTitle'') (ui_url surrogate_video)
      = Some [0x61, 0xFFFD, 0x62]"
    unfolding u1 by blast
  from r12 r3 r4 show ?thesis by blast
qed


section \<open>Properties of the transcript fetch client\<close>

text \<open>
  C7, as amended. When the transcript request succeeds, the markup put into the input area
  is the title block, the address block and then the transcript with every \<open>&\<close>,
  \<open><\<close> and \<open>>\<close> replaced by its character reference, so that the escaped transcript
  contains neither \<open><\<close> nor \<open>>\<close>. On failure the two blocks are followed by the red
  error block carrying the message of the error that was caught: for a response that is not
  OK with a JSON body, the \<open>detail\<close> of the body, or the fixed transcript-unavailable
  text when the detail is absent or empty; for a rejected request, a body that cannot be
  read as JSON or a \<open>null\<close> body, the message of that exception itself.
\<close>

theorem transcript_rendered_by_outcome:
  \<open>(ok st \<and> get_prop (ascii ''transcript'') j = Inr (Some t) \<longrightarrow>
      (\<exists>u'. fetchAndDisplayTranscript vid (Some title) furl (FetchResponded st (Inr j)) u = Inr u'
         \<and> input_innerHTML u' =
              ascii ''<div style="font-size: 20px; font-weight: 500;">'' @ trim title
              @ ascii '' - YouTube</div>''
              @ ascii ''<div style="font-size: 14px; color: #555; margin-bottom: 1em;">''
              @ template furl @ ascii ''</div>'' @ escape_transcript t)
      \<and> escape_transcript t = concat (map html_entity t)
      \<and> 0x3C \<notin> set (escape_transcript t) \<and> 0x3E \<notin> set (escape_transcript t))
   \<and> (\<not> ok st \<and> get_prop (ascii ''detail'') j = Inr d \<longrightarrow>
      (\<exists>u'. fetchAndDisplayTranscript vid (Some title) furl (FetchResponded st (Inr j)) u = Inr u'
         \<and> input_innerHTML u' =
              ascii ''<div style="font-size: 20px; font-weight: 500;">'' @ trim title
              @ ascii '' - YouTube</div>''
              @ ascii ''<div style="font-size: 14px; color: #555; margin-bottom: 1em;">''
              @ template furl @ ascii ''</div>''
              @ ascii ''<div style="color: red;">'' @ prefix_transcript_failed
              @ or_else d msg_transcript_unavailable @ ascii ''</div>''))
   \<and> (\<not> ok st \<and> get_prop (ascii ''detail'') j = Inl e \<longrightarrow>
      (\<exists>u'. fetchAndDisplayTranscript vid (Some title) furl (FetchResponded st (Inr j)) u = Inr u'
         \<and> input_innerHTML u' =
              ascii ''<div style="font-size: 20px; font-weight: 500;">'' @ trim title
              @ ascii '' - YouTube</div>''
              @ ascii ''<div style="font-size: 14px; color: #555; margin-bottom: 1em;">''
              @ template furl @ ascii ''</div>''
              @ ascii ''<div style="color: red;">'' @ prefix_transcript_failed
              @ message e @ ascii ''</div>''))
   \<and> (\<exists>u'. fetchAndDisplayTranscript vid (Some title) furl (FetchResponded st (Inl e)) u = Inr u'
         \<and> input_innerHTML u' =
              ascii ''<div style="font-size: 20px; font-weight: 500;">'' @ trim title
              @ ascii '' - YouTube</div>''
              @ ascii ''<div style="font-size: 14px; color: #555; margin-bottom: 1em;">''
              @ template furl @ ascii ''</div>''
              @ ascii ''<div style="color: red;">'' @ prefix_transcript_failed
              @ message e @ ascii ''</div>'')
   \<and> (\<exists>u'. fetchAndDisplayTranscript vid (Some title) furl (FetchRejected e) u = Inr u'
         \<and> input_innerHTML u' =
              ascii ''<div style="font-size: 20px; font-weight: 500;">'' @ trim title
              @ ascii '' - YouTube</div>''
              @ ascii ''<div style="font-size: 14px; color: #555; margin-bottom: 1em;">''
              @ template furl @ ascii ''</div>''
              @ ascii ''<div style="color: red;">'' @ prefix_transcript_failed
              @ message e @ ascii ''</div>'')
   \<and> (\<forall>x. furl = Some x \<longrightarrow> template furl = x)\<close>
proof -
  note html = transcript_settled_html [of vid title furl _ u]
  have a: "ok st \<and> get_prop (ascii ''transcript'') j = Inr (Some t) \<longrightarrow>
      (\<exists>u'. fetchAndDisplayTranscript vid (Some title) furl (FetchResponded st (Inr j)) u = Inr u'
         \<and> input_innerHTML u' = titleHTML title @ urlHTML furl @ escape_transcript t)"
    using html [of "FetchResponded st (Inr j)"] by (auto simp: transcript_success)
  have b: "\<not> ok st \<and> get_prop (ascii ''detail'') j = Inr d \<longrightarrow>
      (\<exists>u'. fetchAndDisplayTranscript vid (Some title) furl (FetchResponded st (Inr j)) u = Inr u'
         \<and> input_innerHTML u' = titleHTML title @ urlHTML furl
              @ errorHTML (or_else d msg_transcript_unavailable))"
    using html [of "FetchResponded st (Inr j)"] by (auto simp: transcript_failure)
  have c: "\<not> ok st \<and> get_prop (ascii ''detail'') j = Inl e \<longrightarrow>
      (\<exists>u'. fetchAndDisplayTranscript vid (Some title) furl (FetchResponded st (Inr j)) u = Inr u'
         \<and> input_innerHTML u' = titleHTML title @ urlHTML furl @ errorHTML (message e))"
    using html [of "FetchResponded st (Inr j)"] by (auto simp: transcript_try_thrown)
  have d: "\<exists>u'. fetchAndDisplayTranscript vid (Some title) furl (FetchResponded st (Inl e)) u = Inr u'
         \<and> input_innerHTML u' = titleHTML title @ urlHTML furl @ errorHTML (message e)"
    using html [of "FetchResponded st (Inl e)"] by (simp add: transcript_try_thrown)
  have r: "\<exists>u'. fetchAndDisplayTranscript vid (Some title) furl (FetchRejected e) u = Inr u'
         \<and> input_innerHTML u' = titleHTML title @ urlHTML furl @ errorHTML (message e)"
    using html [of "FetchRejected e"] by (simp add: transcript_try_thrown)
  have raw: "\<forall>x. furl = Some x \<longrightarrow> template furl = x"
    by (simp add: template_def)
  from a b c d r raw escape_transcript_entities [of t] escape_transcript_no_markup [of t]
  show ?thesis
    unfolding transcript_markup by blast
qed

theorem transcript_rendered_by_outcome_witness:
  \<open>\<exists>u1 u2 u3. ok 200
     \<and> fetchAndDisplayTranscript (ascii ''dQw4'') (Some (ascii ''Title'')) (Some (ascii ''https://y''))
         (FetchResponded 200 (Inr transcript_body)) ui0 = Inr u1
     \<and> input_innerHTML u1 = ascii ''<div style="font-size: 20px; font-weight: 500;">Title - YouTube</div><div style="font-size: 14px; color: #555; margin-bottom: 1em;">https://y</div>''
         @ ascii ''a&lt;b &amp; c&gt;d''
     \<and> \<not> ok 404
     \<and> fetchAndDisplayTranscript (ascii ''dQw4'') (Some (ascii ''Title'')) (Some (ascii ''https://y''))
         (FetchResponded 404 (Inr missing_body)) ui0 = Inr u2
     \<and> input_innerHTML u2 = ascii ''<div style="font-size: 20px; font-weight: 500;">Title - YouTube</div><div style="font-size: 14px; color: #555; margin-bottom: 1em;">https://y</div>''
         @ ascii ''<div style="color: red;">'' @ prefix_transcript_failed
         @ ascii ''No transcript'' @ ascii ''</div>''
     \<and> fetchAndDisplayTranscript (ascii ''dQw4'') (Some (ascii ''Title'')) (Some (ascii ''https://y''))
         failed_fetch ui0 = Inr u3
     \<and> input_innerHTML u3 = ascii ''<div style="font-size: 20px; font-weight: 500;">Title - YouTube</div><div style="font-size: 14px; color: #555; margin-bottom: 1em;">https://y</div>''
         @ ascii ''<div style="color: red;">'' @ prefix_transcript_failed
         @ ascii ''Failed to fetch'' @ ascii ''</div>''\<close>
proof -
  have o: "ok 200" "\<not> ok 404" by (simp_all add: ok_def)
  have b1: "get_prop (ascii ''transcript'') transcript_body = Inr (Some (ascii ''a<b & c>d''))"
    and b2: "get_prop (ascii ''detail'') missing_body = Inr (Some (ascii ''No transcript''))"
    by (simp_all add: transcript_body_def missing_body_def ascii_def)
  have e: "escape_transcript (ascii ''a<b & c>d'') = ascii ''a&lt;b &amp; c&gt;d''"
    by (simp add: escape_transcript_def replace_all_def ascii_def)
  have f: "or_else (Some (ascii ''No transcript'')) msg_transcript_unavailable = ascii ''No transcript''"
    by (simp add: or_else_def ascii_def)
  have m: "message (JsError TypeError (ascii ''Failed to fetch'')) = ascii ''Failed to fetch''"
    by simp
  note t1 = transcript_rendered_by_outcome [where st = 200 and j = transcript_body
      and t = "ascii ''a<b & c>d''" and vid = "ascii ''dQw4''" and title = "ascii ''Title''"
      and furl = "Some (ascii ''https://y'')" and u = ui0 and d = None
      and e = "JsError TypeError (ascii ''Failed to fetch'')"]
  note t2 = transcript_rendered_by_outcome [where st = 404 and j = missing_body
      and t = "[]" and vid = "ascii ''dQw4''" and title = "ascii ''Title''"
      and furl = "Some (ascii ''https://y'')" and u = ui0
      and d = "Some (ascii ''No transcript'')"
      and e = "JsError TypeError (ascii ''Failed to fetch'')"]
  from t1 o b1 obtain u1 where u1: \<open>fetchAndDisplayTranscript (ascii ''dQw4'') (Some (ascii ''Title''))
         (Some (ascii ''https://y'')) (FetchResponded 200 (Inr transcript_body)) ui0 = Inr u1\<close>
    \<open>input_innerHTML u1 = ascii ''<div style="font-size: 20px; font-weight: 500;">Title - YouTube</div><div style="font-size: 14px; color: #555; margin-bottom: 1em;">https://y</div>''
         @ ascii ''a&lt;b &amp; c&gt;d''\<close>
    unfolding example_markup e by blast
  from t2 o b2 obtain u2 where u2: \<open>fetchAndDisplayTranscript (ascii ''dQw4'') (Some (ascii ''Title''))
         (Some (ascii ''https://y'')) (FetchResponded 404 (Inr missing_body)) ui0 = Inr u2\<close>
    \<open>input_innerHTML u2 = ascii ''<div style="font-size: 20px; font-weight: 500;">Title - YouTube</div><div style="font-size: 14px; color: #555; margin-bottom: 1em;">https://y</div>''
         @ ascii ''<div style="color: red;">'' @ prefix_transcript_failed
         @ ascii ''No transcript'' @ ascii ''</div>''\<close>
    unfolding example_markup f by blast
  from t1 obtain u3 where u3: \<open>fetchAndDisplayTranscript (ascii ''dQw4'') (Some (ascii ''Title''))
         (Some (ascii ''https://y'')) failed_fetch ui0 = Inr u3\<close>
    \<open>input_innerHTML u3 = ascii ''<div style="font-size: 20px; font-weight: 500;">Title - YouTube</div><div style="font-size: 14px; color: #555; margin-bottom: 1em;">https://y</div>''
         @ ascii ''<div style="color: red;">'' @ prefix_transcript_failed
         @ ascii ''Failed to fetch'' @ ascii ''</div>''\<close>
    unfolding example_markup m failed_fetch_def by blast
  from o u1 u2 u3 show ?thesis by blast
qed

text \<open>
  C7 as stated fails: when the request is rejected, or the error body is plain text, no
  detail is given and yet the text rendered is the message of the exception, not the fixed
  transcript-unavailable text.
\<close>

theorem transcript_failure_counterexample:
  \<open>\<not> isl (fetchAndDisplayTranscript (ascii ''dQw4'') (Some (ascii ''Title''))
        (Some (ascii ''https://y'')) failed_fetch ui0)
   \<and> input_innerHTML (projr (fetchAndDisplayTranscript (ascii ''dQw4'') (Some (ascii ''Title''))
        (Some (ascii ''https://y'')) failed_fetch ui0))
       = ascii ''<div style="font-size: 20px; font-weight: 500;">Title - YouTube</div><div style="font-size: 14px; color: #555; margin-bottom: 1em;">https://y</div>''
         @ ascii ''<div style="color: red;">'' @ prefix_transcript_failed
         @ ascii ''Failed to fetch'' @ ascii ''</div>''
   \<and> ascii ''Failed to fetch'' \<noteq> msg_transcript_unavailable
   \<and> \<not> isl (fetchAndDisplayTranscript (ascii ''dQw4'') (Some (ascii ''Title''))
        (Some (ascii ''https://y'')) plain_text_500 ui0)
   \<and> input_innerHTML (projr (fetchAndDisplayTranscript (ascii ''dQw4'') (Some (ascii ''Title''))
        (Some (ascii ''https://y'')) plain_text_500 ui0))
       = ascii ''<div style="font-size: 20px; font-weight: 500;">Title - YouTube</div><div style="font-size: 14px; color: #555; margin-bottom: 1em;">https://y</div>''
         @ ascii ''<div style="color: red;">'' @ prefix_transcript_failed
         @ ascii ''Unexpected token'' @ ascii ''</div>''
   \<and> ascii ''Unexpected token'' \<noteq> msg_transcript_unavailable\<close>
proof -
  from transcript_settled_html [of "ascii ''dQw4''" "ascii ''Title''" "Some (ascii ''https://y'')"
      failed_fetch ui0]
  obtain u1 where u1: "fetchAndDisplayTranscript (ascii ''dQw4'') (Some (ascii ''Title''))
        (Some (ascii ''https://y'')) failed_fetch ui0 = Inr u1"
    "input_innerHTML u1 = titleHTML (ascii ''Title'') @ urlHTML (Some (ascii ''https://y''))
        @ errorHTML (ascii ''Failed to fetch'')"
    by (auto simp: failed_fetch_def transcript_try_thrown)
  from transcript_settled_html [of "ascii ''dQw4''" "ascii ''Title''" "Some (ascii ''https://y'')"
      plain_text_500 ui0]
  obtain u2 where u2: "fetchAndDisplayTranscript (ascii ''dQw4'') (Some (ascii ''Title''))
        (Some (ascii ''https://y'')) plain_text_500 ui0 = Inr u2"
    "input_innerHTML u2 = titleHTML (ascii ''Title'') @ urlHTML (Some (ascii ''https://y''))
        @ errorHTML (ascii ''Unexpected token'')"
    by (auto simp: plain_text_500_def transcript_try_thrown)
  have n: "ascii ''Failed to fetch'' \<noteq> msg_transcript_unavailable"
    "ascii ''Unexpected token'' \<noteq> msg_transcript_unavailable"
    by (simp_all add: msg_transcript_unavailable_def ascii_def)
  from u1 u2 n show ?thesis
    unfolding transcript_markup example_markup by simp
qed

text \<open>
  C9. Whatever the outcome of the transcript request, the markup put into the input area
  begins with the title block and the address block, into which the trimmed title and the
  page address from the query parameters are copied as they are: a \<open><\<close> or \<open>>\<close> of
  the title survives the trimming and reaches the markup unescaped, and so does the whole of
  the address. Only what follows the two blocks depends on the response.
\<close>

theorem metadata_interpolated_raw:
  \<open>\<exists>u' rest. fetchAndDisplayTranscript vid (Some title) furl r u = Inr u'
     \<and> input_innerHTML u' =
          ascii ''<div style="font-size: 20px; font-weight: 500;">'' @ trim title
          @ ascii '' - YouTube</div>''
          @ ascii ''<div style="font-size: 14px; color: #555; margin-bottom: 1em;">''
          @ template furl @ ascii ''</div>'' @ rest
     \<and> (0x3C \<in> set title \<longrightarrow> 0x3C \<in> set (trim title))
     \<and> (0x3E \<in> set title \<longrightarrow> 0x3E \<in> set (trim title))
     \<and> (\<forall>x. furl = Some x \<longrightarrow> template furl = x)\<close>
proof -
  obtain u' where u': "fetchAndDisplayTranscript vid (Some title) furl r u = Inr u'"
    and html: "input_innerHTML u' =
         (case transcript_try (Some title) furl r of
            Inr html \<Rightarrow> html
          | Inl e \<Rightarrow> titleHTML title @ urlHTML furl @ errorHTML (message e))"
    using transcript_settled_html [of vid title furl r u] by blast
  have "\<exists>rest. input_innerHTML u' = titleHTML title @ urlHTML furl @ rest"
  proof (cases "transcript_try (Some title) furl r")
    case (Inl e)
    with html show ?thesis by simp
  next
    case (Inr h)
    with html transcript_try_shape [OF Inr] show ?thesis by simp
  qed
  then obtain rest where "input_innerHTML u' = titleHTML title @ urlHTML furl @ rest"
    by blast
  then have shape: \<open>input_innerHTML u' =
          ascii ''<div style="font-size: 20px; font-weight: 500;">'' @ trim title
          @ ascii '' - YouTube</div>''
          @ ascii ''<div style="font-size: 14px; color: #555; margin-bottom: 1em;">''
          @ template furl @ ascii ''</div>'' @ rest\<close>
    by (simp add: titleHTML_def urlHTML_def)
  have keep: "0x3C \<in> set title \<longrightarrow> 0x3C \<in> set (trim title)"
    "0x3E \<in> set title \<longrightarrow> 0x3E \<in> set (trim title)"
    by (simp_all add: trim_keeps angle_not_space)
  have raw: "\<forall>x. furl = Some x \<longrightarrow> template furl = x"
    by (simp add: template_def)
  from u' shape keep raw show ?thesis by blast
qed

theorem metadata_interpolated_raw_witness:
  \<open>\<exists>u' rest. fetchAndDisplayTranscript (ascii ''dQw4'') (Some markup_title)
        (Some (ascii ''<u>x</u>'')) (FetchResponded 200 (Inr transcript_body)) ui0 = Inr u'
     \<and> input_innerHTML u' =
          ascii ''<div style="font-size: 20px; font-weight: 500;">''
          @ ascii ''<img src=x onerror=alert(1)>'' @ ascii '' - YouTube</div>''
          @ ascii ''<div style="font-size: 14px; color: #555; margin-bottom: 1em;">''
          @ ascii ''<u>x</u>'' @ ascii ''</div>'' @ rest
     \<and> 0x3C \<in> set markup_title\<close>
proof -
  have m: "0x3C \<in> set markup_title" "trim markup_title = ascii ''<img src=x onerror=alert(1)>''"
    by (simp_all add: markup_title_def trim_def is_js_space_def ascii_def)
  have t: "template (Some (ascii ''<u>x</u>'')) = ascii ''<u>x</u>''"
    by (simp add: template_def)
  from metadata_interpolated_raw [of "ascii ''dQw4''" markup_title "Some (ascii ''<u>x</u>'')"
      "FetchResponded 200 (Inr transcript_body)" ui0]
  show ?thesis unfolding m(2) t using m(1) by blast
qed


section \<open>Properties of the persisted preferences\<close>

text \<open>
  C8, as amended. At initialisation the two checkboxes are set from the stored
  \<open>show_timestamp\<close> and \<open>use_streaming\<close> values, the provider list from the stored
  \<open>lastUsedProvider\<close> (or its default), and the model list is requested for that provider
  with the stored \<open>lastUsedModel\<close> as the model to select; the store itself is left as it
  was. A change of either checkbox stores its new value under its key, and neither it nor
  any step of a translation attempt removes a key.
  A change of the provider list writes nothing; \<open>lastUsedProvider\<close> and
  \<open>lastUsedModel\<close> are written, with the provider and the model of the attempt, when a
  single-shot translation succeeds.
\<close>

theorem preferences_read_and_written:
  "timestamp_checked (DOMContentLoaded loc u)
       = (getItem (ascii ''show_timestamp'') u = Some (ascii ''true''))
   \<and> streaming_checked (DOMContentLoaded loc u)
       = (getItem (ascii ''use_streaming'') u = Some (ascii ''true''))
   \<and> provider_value (DOMContentLoaded loc u)
       = select_value (provider_options u)
           (or_else (getItem (ascii ''lastUsedProvider'') u) (ascii ''gemini''))
   \<and> last (calls (DOMContentLoaded loc u))
       = ModelsCall (or_else (getItem (ascii ''lastUsedProvider'') u) (ascii ''gemini''))
           (getItem (ascii ''lastUsedModel'') u)
   \<and> localStorage (DOMContentLoaded loc u) = localStorage u
   \<and> getItem (ascii ''show_timestamp'') (timestamp_change c loc u) = Some (show_bool c)
   \<and> getItem (ascii ''use_streaming'') (streaming_change c u) = Some (show_bool c)
   \<and> dom (localStorage u) \<subseteq> dom (localStorage (timestamp_change c loc u))
   \<and> dom (localStorage u) \<subseteq> dom (localStorage (streaming_change c u))
   \<and> localStorage (provider_change v u) = localStorage u
   \<and> (regular_step ev f1 = Some f2 \<longrightarrow>
        dom (localStorage (doc f1)) \<subseteq> dom (localStorage (doc f2)))
   \<and> (stream_step P sev g1 = Some g2 \<longrightarrow>
        dom (localStorage (sdoc g1)) \<subseteq> dom (localStorage (sdoc g2)))
   \<and> (handleRegularTranslation u = Inr f0 \<and> ok st
        \<and> get_prop (ascii ''translated_text'') j = Inr t \<longrightarrow>
       (\<exists>f. regular_run [FetchResolves st, JsonResolves j] f0 = Some f
          \<and> getItem (ascii ''lastUsedProvider'') (doc f) = Some (provider_value u)
          \<and> getItem (ascii ''lastUsedModel'') (doc f) = Some (model_value u)))"
proof -
  have d1: "dom (localStorage u) \<subseteq> dom (localStorage (timestamp_change c loc u))"
    by (auto simp: timestamp_change_def Let_def setItem_def)
  have d2: "dom (localStorage u) \<subseteq> dom (localStorage (streaming_change c u))"
    by (auto simp: streaming_change_def setItem_def)
  have d3: "regular_step ev f1 = Some f2 \<longrightarrow>
        dom (localStorage (doc f1)) \<subseteq> dom (localStorage (doc f2))"
    using regular_step_storage by blast
  have d4: "stream_step P sev g1 = Some g2 \<longrightarrow>
        dom (localStorage (sdoc g1)) \<subseteq> dom (localStorage (sdoc g2))"
    using stream_step_storage [of P sev g1 g2] by simp
  from init_reads [of loc u] change_writes(1) [of c loc u] change_writes(2) [of c u]
    change_writes(3) [of v u] d1 d2 d3 d4 success_writes [of u f0 st j t]
  show ?thesis by blast
qed

theorem preferences_read_and_written_witness:
  "\<exists>f0 f. handleRegularTranslation ui0 = Inr f0 \<and> ok 200
     \<and> get_prop (ascii ''translated_text'') translated_body = Inr (Some [0xC548, 0xB155])
     \<and> regular_run [FetchResolves 200, JsonResolves translated_body] f0 = Some f
     \<and> getItem (ascii ''lastUsedProvider'') (doc f) = Some (ascii ''gemini'')
     \<and> getItem (ascii ''lastUsedModel'') (doc f) = Some (ascii ''models/gemini-pro'')"
proof -
  obtain f0 where s: "handleRegularTranslation ui0 = Inr f0"
    using ui0_regular_start by blast
  have b: "get_prop (ascii ''translated_text'') translated_body = Inr (Some [0xC548, 0xB155])"
    by (simp add: translated_body_def ascii_def)
  have p: "provider_value ui0 = ascii ''gemini''" "model_value ui0 = ascii ''models/gemini-pro''"
    by (simp_all add: ui0_def)
  note w = preferences_read_and_written [where u = ui0 and ?f0.0 = f0 and st = 200
      and j = translated_body and t = "Some [0xC548, 0xB155]" and loc = ui_page and c = True
      and v = "[]" and ev = IntervalFires and ?f1.0 = f0 and ?f2.0 = f0 and P = no_json
      and sev = Unload and ?g1.0 = "\<lparr>sdoc = ui0, saborted = False, sphase = StreamSettled\<rparr>"
      and ?g2.0 = "\<lparr>sdoc = ui0, saborted = False, sphase = StreamSettled\<rparr>"]
  from w s b not_ok_500(3)
  have "\<exists>f. regular_run [FetchResolves 200, JsonResolves translated_body] f0 = Some f
          \<and> getItem (ascii ''lastUsedProvider'') (doc f) = Some (provider_value ui0)
          \<and> getItem (ascii ''lastUsedModel'') (doc f) = Some (model_value ui0)"
    by blast
  with s b not_ok_500(3) show ?thesis unfolding p by blast
qed

text \<open>
  C8 as stated fails: changing the provider from \<open>gemini\<close> to \<open>openai\<close> leaves the
  \<open>lastUsedProvider\<close> key unwritten.
\<close>

theorem provider_change_counterexample:
  "provider_value (provider_change (ascii ''openai'') ui0) = ascii ''openai''
   \<and> provider_value ui0 \<noteq> ascii ''openai''
   \<and> getItem (ascii ''lastUsedProvider'') (provider_change (ascii ''openai'') ui0) = None"
  by (simp add: change_writes getItem_def) (simp add: ui0_def ascii_def)


section \<open>Properties of the translation request orchestrator\<close>

text \<open>
  C5. When the input text is empty or consists of white space only, pressing the translate
  button ends in the validation branch in both modes: the handler returns with the message
  asking for text shown as an error, the list of started calls is unchanged (no request is
  sent), and the button and the input area are left as they were.
\<close>

theorem blank_input_is_rejected:
  assumes blank: "\<forall>c\<in>set (input_innerText u). is_js_space c"
  shows "handleRegularTranslation u = Inl (updateStatus msg_enter_text StError False u)
       \<and> handleStreamTranslation u = Inl (updateStatus msg_enter_text StError False u)
       \<and> translate_click u = Rejected (updateStatus msg_enter_text StError False u)
       \<and> calls (updateStatus msg_enter_text StError False u) = calls u
       \<and> status_text (updateStatus msg_enter_text StError False u) = msg_enter_text
       \<and> status_class (updateStatus msg_enter_text StError False u) = StError
       \<and> status_display (updateStatus msg_enter_text StError False u) = DisplayBlock
       \<and> translate_disabled (updateStatus msg_enter_text StError False u) = translate_disabled u
       \<and> input_contenteditable (updateStatus msg_enter_text StError False u)
           = input_contenteditable u"
proof -
  from blank have t: "trim (input_innerText u) = []"
    by (simp add: trim_empty_iff)
  have r: "handleRegularTranslation u = Inl (updateStatus msg_enter_text StError False u)"
    using t by (simp add: handleRegularTranslation_def)
  have s: "handleStreamTranslation u = Inl (updateStatus msg_enter_text StError False u)"
    using t by (simp add: handleStreamTranslation_def)
  have c: "translate_click u = Rejected (updateStatus msg_enter_text StError False u)"
    by (simp add: translate_click_def r s)
  have d: "status_display (updateStatus msg_enter_text StError False u) = DisplayBlock"
    by (simp add: updateStatus_def Let_def)
  from r s c d show ?thesis by simp
qed

theorem blank_input_is_rejected_witness:
  "list_all is_js_space blank_input
   \<and> translate_click (ui0\<lparr>input_innerText := blank_input\<rparr>)
       = Rejected (updateStatus msg_enter_text StError False (ui0\<lparr>input_innerText := blank_input\<rparr>))
   \<and> translate_click (ui0\<lparr>input_innerText := blank_input, streaming_checked := True\<rparr>)
       = Rejected (updateStatus msg_enter_text StError False
            (ui0\<lparr>input_innerText := blank_input, streaming_checked := True\<rparr>))
   \<and> calls (updateStatus msg_enter_text StError False (ui0\<lparr>input_innerText := blank_input\<rparr>)) = []"
proof -
  have b: "\<forall>c\<in>set blank_input. is_js_space c"
    by (simp add: blank_input_def is_js_space_def)
  have b1: "\<forall>c\<in>set (input_innerText (ui0\<lparr>input_innerText := blank_input\<rparr>)). is_js_space c"
    and b2: "\<forall>c\<in>set (input_innerText (ui0\<lparr>input_innerText := blank_input, streaming_checked := True\<rparr>)).
               is_js_space c"
    using b by simp_all
  have c0: "calls (ui0\<lparr>input_innerText := blank_input\<rparr>) = []"
    by (simp add: ui0_def)
  from blank_input_is_rejected [OF b1] blank_input_is_rejected [OF b2] b c0
  show ?thesis by (simp add: list_all_iff)
qed

text \<open>
  C1. In streaming mode, once the response is open, every chunk read is appended to the
  output at once: after the first \<open>k\<close> fragments the function is waiting for the next read
  with the output equal to the concatenation of those \<open>k\<close> fragments in arrival order;
  after the end of the stream the output is the concatenation of all of them; and the output
  after \<open>j\<close> fragments is a prefix of, and no longer than, the output after \<open>k \<ge> j\<close>.
\<close>

theorem stream_output_is_concatenation:
  assumes start: "handleStreamTranslation u = Inr f0" and st: "ok st"
  shows "(\<forall>k\<le>length fs. \<exists>f.
            stream_run P (StreamResolves st # map ReadChunk (take k fs)) f0 = Some f
            \<and> sphase f = StreamReading
            \<and> output_textContent (sdoc f) = concat (take k fs))
       \<and> (\<exists>f. stream_run P (StreamResolves st # map ReadChunk fs @ [ReadDone]) f0 = Some f
            \<and> sphase f = StreamSettled
            \<and> output_textContent (sdoc f) = concat fs)
       \<and> (\<forall>j k f g. j \<le> k \<and> k \<le> length fs
            \<and> stream_run P (StreamResolves st # map ReadChunk (take j fs)) f0 = Some f
            \<and> stream_run P (StreamResolves st # map ReadChunk (take k fs)) f0 = Some g
            \<longrightarrow> prefix (output_textContent (sdoc f)) (output_textContent (sdoc g))
              \<and> length (output_textContent (sdoc f)) \<le> length (output_textContent (sdoc g)))"
proof -
  let ?f1 = "f0\<lparr>sphase := StreamReading\<rparr>"
  have open_stream: "stream_step P (StreamResolves st) f0 = Some ?f1"
    using stream_start_fields(1) [OF start] st by simp
  have reading: "sphase ?f1 = StreamReading" by simp
  have empty: "output_textContent (sdoc ?f1) = []"
    using stream_start_fields(2) [OF start] by simp
  have after: "stream_run P (StreamResolves st # map ReadChunk cs) f0
      = Some (?f1\<lparr>sdoc := (sdoc ?f1)\<lparr>output_textContent := concat cs\<rparr>\<rparr>)" for cs
    using stream_run_chunks [OF reading, of P cs] open_stream empty by simp
  have part1: "\<forall>k\<le>length fs. \<exists>f.
            stream_run P (StreamResolves st # map ReadChunk (take k fs)) f0 = Some f
            \<and> sphase f = StreamReading
            \<and> output_textContent (sdoc f) = concat (take k fs)"
    unfolding after by simp
  have "stream_run P ((StreamResolves st # map ReadChunk fs) @ [ReadDone]) f0
      = stream_step P ReadDone (?f1\<lparr>sdoc := (sdoc ?f1)\<lparr>output_textContent := concat fs\<rparr>\<rparr>)"
    unfolding stream_run_append after by (simp split: option.splits)
  then have part2: "\<exists>f. stream_run P (StreamResolves st # map ReadChunk fs @ [ReadDone]) f0 = Some f
            \<and> sphase f = StreamSettled
            \<and> output_textContent (sdoc f) = concat fs"
    by simp
  have pre: "prefix (concat (take j fs)) (concat (take k fs))" if "j \<le> k" for j k
  proof -
    from that have "take k fs = take j fs @ take (k - j) (drop j fs)"
      by (metis le_add_diff_inverse take_add)
    then show ?thesis by (metis concat_append prefixI)
  qed
  have part3: "\<forall>j k f g. j \<le> k \<and> k \<le> length fs
            \<and> stream_run P (StreamResolves st # map ReadChunk (take j fs)) f0 = Some f
            \<and> stream_run P (StreamResolves st # map ReadChunk (take k fs)) f0 = Some g
            \<longrightarrow> prefix (output_textContent (sdoc f)) (output_textContent (sdoc g))
              \<and> length (output_textContent (sdoc f)) \<le> length (output_textContent (sdoc g))"
    unfolding after using pre by (auto dest: prefix_length_le)
  from part1 part2 part3 show ?thesis by blast
qed

theorem stream_output_is_concatenation_witness:
  "\<exists>f0 f g. handleStreamTranslation ui0 = Inr f0 \<and> ok 200
     \<and> stream_run no_json (StreamResolves 200 # map ReadChunk (take 2 hello_fragments)) f0 = Some g
     \<and> output_textContent (sdoc g) = [0xC548, 0xB155]
     \<and> stream_run no_json (StreamResolves 200 # map ReadChunk hello_fragments @ [ReadDone]) f0 = Some f
     \<and> output_textContent (sdoc f) = [0xC548, 0xB155, 0xD558, 0xC138, 0xC694]"
proof -
  obtain f0 where s: "handleStreamTranslation ui0 = Inr f0"
    using ui0_stream_start by blast
  have o: "ok 200" by (simp add: ok_def)
  have l: "2 \<le> length hello_fragments" by (simp add: hello_fragments_def)
  note t = stream_output_is_concatenation [OF s o, of hello_fragments no_json]
  from t l obtain g where
    g: "stream_run no_json (StreamResolves 200 # map ReadChunk (take 2 hello_fragments)) f0 = Some g"
       "output_textContent (sdoc g) = concat (take 2 hello_fragments)"
    by blast
  from t obtain f where
    f: "stream_run no_json (StreamResolves 200 # map ReadChunk hello_fragments @ [ReadDone]) f0 = Some f"
       "output_textContent (sdoc f) = concat hello_fragments"
    by blast
  have "concat (take 2 hello_fragments) = [0xC548, 0xB155]"
    and "concat hello_fragments = [0xC548, 0xB155, 0xD558, 0xC138, 0xC694]"
    by (simp_all add: hello_fragments_def)
  with s o g f show ?thesis by metis
qed

text \<open>
  C10. In streaming mode, a response that is not OK has its body read as text and parsed.
  When the parser throws, the text shown in the output area and in the status line is the
  error prefix followed by the parser's message, whatever the body was; the \<open>detail\<close> of
  the backend is shown only when the body parses to an object that has one, an object
  without it or an array gives the fixed connection-failure text, and \<open>null\<close> gives the
  message of the failed property read.
\<close>

theorem stream_error_body_not_json:
  assumes start: "handleStreamTranslation u = Inr f0" and st: "\<not> ok st"
  shows "\<exists>f. stream_run P [StreamResolves st, TextResolves errorText] f0 = Some f
     \<and> (\<forall>msg. P errorText = Inl (JsError SyntaxError msg) \<longrightarrow>
           output_textContent (sdoc f) = prefix_error @ msg
           \<and> status_text (sdoc f) = prefix_error @ msg)
     \<and> (\<forall>ps. P errorText = Inr (JObject ps) \<longrightarrow>
           output_textContent (sdoc f)
             = prefix_error @ or_else (map_of ps (ascii ''detail'')) msg_stream_failed)
     \<and> (\<forall>xs. P errorText = Inr (JArray xs) \<longrightarrow>
           output_textContent (sdoc f) = prefix_error @ msg_stream_failed)
     \<and> (P errorText = Inr JNull \<longrightarrow>
           output_textContent (sdoc f) = prefix_error @ null_read_message (ascii ''detail''))"
proof -
  let ?f = "stream_finally (stream_catch (stream_error P errorText) (f0\<lparr>sphase := StreamAwaitText\<rparr>))"
  have run: "stream_run P [StreamResolves st, TextResolves errorText] f0 = Some ?f"
    by (rule stream_error_run [OF start st])
  have a: "\<forall>msg. P errorText = Inl (JsError SyntaxError msg) \<longrightarrow>
           output_textContent (sdoc ?f) = prefix_error @ msg
           \<and> status_text (sdoc ?f) = prefix_error @ msg"
    by (simp add: stream_catch_output stream_error_def)
  have b: "\<forall>ps. P errorText = Inr (JObject ps) \<longrightarrow>
           output_textContent (sdoc ?f)
             = prefix_error @ or_else (map_of ps (ascii ''detail'')) msg_stream_failed"
    by (simp add: stream_catch_output stream_error_def)
  have c: "\<forall>xs. P errorText = Inr (JArray xs) \<longrightarrow>
           output_textContent (sdoc ?f) = prefix_error @ msg_stream_failed"
    by (simp add: stream_catch_output stream_error_def or_else_def)
  have d: "P errorText = Inr JNull \<longrightarrow>
           output_textContent (sdoc ?f) = prefix_error @ null_read_message (ascii ''detail'')"
    by (simp add: stream_catch_output stream_error_def)
  from run a b c d show ?thesis by blast
qed

theorem stream_error_body_not_json_witness:
  "\<exists>f0 f g. handleStreamTranslation ui0 = Inr f0 \<and> \<not> ok 500
     \<and> stream_run no_json [StreamResolves 500, TextResolves (ascii ''Internal Server Error'')] f0 = Some f
     \<and> output_textContent (sdoc f) = prefix_error @ ascii ''Unexpected tokenInternal Server Error''
     \<and> stream_run detail_json [StreamResolves 500, TextResolves (ascii ''quota'')] f0 = Some g
     \<and> output_textContent (sdoc g) = prefix_error @ ascii ''quota''"
proof -
  obtain f0 where s: "handleStreamTranslation ui0 = Inr f0"
    using ui0_stream_start by blast
  have o: "\<not> ok 500" by (simp add: ok_def)
  from stream_error_body_not_json [OF s o, of no_json "ascii ''Internal Server Error''"]
  obtain f where
    f: "stream_run no_json [StreamResolves 500, TextResolves (ascii ''Internal Server Error'')] f0 = Some f"
       "output_textContent (sdoc f) = prefix_error @ ascii ''Unexpected token'' @ ascii ''Internal Server Error''"
    by (auto simp: no_json_def)
  from stream_error_body_not_json [OF s o, of detail_json "ascii ''quota''"]
  obtain g where
    g: "stream_run detail_json [StreamResolves 500, TextResolves (ascii ''quota'')] f0 = Some g"
       "output_textContent (sdoc g) = prefix_error @ or_else (map_of [(ascii ''detail'', ascii ''quota'')] (ascii ''detail'')) msg_stream_failed"
    by (auto simp: detail_json_def)
  have "ascii ''Unexpected token'' @ ascii ''Internal Server Error''
      = ascii ''Unexpected tokenInternal Server Error''"
    by (simp add: ascii_def)
  moreover have "or_else (map_of [(ascii ''detail'', ascii ''quota'')] (ascii ''detail'')) msg_stream_failed
      = ascii ''quota''"
    by (simp add: or_else_def ascii_def)
  ultimately show ?thesis using s o f g by metis
qed

text \<open>
  C3, as amended. Whatever the sequence of events of an attempt, once it has settled the
  resources of its teardown are gone: in single-shot mode neither the 180-second timer nor
  the progress ticker is pending, so that neither can fire again, and the button and the
  input area are enabled; in streaming mode the \<open>beforeunload\<close> listener the attempt
  added has been removed, so that an unload no longer reaches the attempt, and the button
  and the input area are enabled. Display timers do outlive the attempt: a settled
  single-shot attempt has started the fade-out of its ready notice, a successful one leaves
  the 500 ms completion notice pending as well, and a streaming attempt that ran to the end
  of the stream has started the fade-out of its completion notice.
\<close>

theorem attempt_teardown:
  "(handleRegularTranslation u = Inr f0 \<and> regular_run evs f0 = Some f \<and> phase f = Settled \<longrightarrow>
      timeoutId f = None \<and> progressInterval f = None
      \<and> regular_step TimeoutFires f = None \<and> regular_step IntervalFires f = None
      \<and> \<not> translate_disabled (doc f) \<and> input_contenteditable (doc f)
      \<and> hideTimeout (doc f))
   \<and> (handleStreamTranslation u = Inr g0 \<and> stream_run P sevs g0 = Some g
        \<and> sphase g = StreamSettled \<longrightarrow>
      beforeunload (sdoc g) = beforeunload u \<and> stream_step P Unload g = None
      \<and> \<not> translate_disabled (sdoc g) \<and> input_contenteditable (sdoc g))
   \<and> (handleRegularTranslation u = Inr f0 \<and> ok st
        \<and> get_prop (ascii ''translated_text'') j = Inr t \<longrightarrow>
      (\<exists>f. regular_run [FetchResolves st, JsonResolves j] f0 = Some f \<and> phase f = Settled
         \<and> completionTimer f = Some 500 \<and> regular_step CompletionFires f \<noteq> None))
   \<and> (handleStreamTranslation u = Inr g0 \<and> ok st \<longrightarrow>
      (\<exists>g. stream_run P (StreamResolves st # map ReadChunk cs @ [ReadDone]) g0 = Some g
         \<and> sphase g = StreamSettled \<and> hideTimeout (sdoc g)))"
proof (intro conjI impI)
  assume h: "handleRegularTranslation u = Inr f0 \<and> regular_run evs f0 = Some f \<and> phase f = Settled"
  then have a: "phase f0 = AwaitFetch" using regular_start_fields(1) by blast
  then have "phase f0 = Settled \<longrightarrow> timeoutId f0 = None \<and> progressInterval f0 = None
           \<and> \<not> translate_disabled (doc f0) \<and> input_contenteditable (doc f0)"
    by simp
  with h regular_run_settled [of evs f0 f]
  show cleared: "timeoutId f = None" "progressInterval f = None"
    and "\<not> translate_disabled (doc f)" "input_contenteditable (doc f)"
    by blast+
  from cleared show "regular_step TimeoutFires f = None" "regular_step IntervalFires f = None"
    by simp_all
  from a have "phase f0 = Settled \<longrightarrow> timeoutId f0 = None \<and> hideTimeout (doc f0)" by simp
  with h regular_run_fade [of evs f0 f] show "hideTimeout (doc f)" by blast
next
  assume h: "handleStreamTranslation u = Inr g0 \<and> stream_run P sevs g0 = Some g
        \<and> sphase g = StreamSettled"
  then have "sphase g0 = StreamAwaitFetch" "beforeunload (sdoc g0) = beforeunload u + 1"
    using stream_start_fields(1,3) by blast+
  then have "if sphase g0 = StreamSettled
         then beforeunload (sdoc g0) = beforeunload u \<and> \<not> translate_disabled (sdoc g0)
              \<and> input_contenteditable (sdoc g0)
         else beforeunload (sdoc g0) = beforeunload u + 1"
    by simp
  with h stream_run_settled [of P sevs g0 g "beforeunload u"]
  show "beforeunload (sdoc g) = beforeunload u"
    "\<not> translate_disabled (sdoc g)" "input_contenteditable (sdoc g)"
    by (simp_all split: if_splits)
  from h show "stream_step P Unload g = None" by simp
next
  assume "handleRegularTranslation u = Inr f0 \<and> ok st
        \<and> get_prop (ascii ''translated_text'') j = Inr t"
  then show "\<exists>f. regular_run [FetchResolves st, JsonResolves j] f0 = Some f \<and> phase f = Settled
         \<and> completionTimer f = Some 500 \<and> regular_step CompletionFires f \<noteq> None"
    using regular_success_run [of u f0 st j t] by blast
next
  assume "handleStreamTranslation u = Inr g0 \<and> ok st"
  then show "\<exists>g. stream_run P (StreamResolves st # map ReadChunk cs @ [ReadDone]) g0 = Some g
         \<and> sphase g = StreamSettled \<and> hideTimeout (sdoc g)"
    using stream_done_run [of u g0 st P cs] by blast
qed

theorem attempt_teardown_witness:
  "\<exists>f0 f f' g0 g. handleRegularTranslation ui0 = Inr f0
     \<and> regular_run [FetchResolves 200, JsonResolves translated_body] f0 = Some f
     \<and> phase f = Settled \<and> timeoutId f = None \<and> progressInterval f = None
     \<and> \<not> translate_disabled (doc f) \<and> input_contenteditable (doc f)
     \<and> regular_run [IntervalFires, TimeoutFires] f0 = Some f'
     \<and> phase f' = Settled \<and> timeoutId f' = None \<and> progressInterval f' = None
     \<and> \<not> translate_disabled (doc f') \<and> input_contenteditable (doc f')
     \<and> handleStreamTranslation ui0 = Inr g0
     \<and> stream_run no_json [Unload] g0 = Some g
     \<and> sphase g = StreamSettled \<and> beforeunload (sdoc g) = beforeunload ui0
     \<and> \<not> translate_disabled (sdoc g) \<and> input_contenteditable (sdoc g)"
proof -
  obtain f0 where s: "handleRegularTranslation ui0 = Inr f0"
    using ui0_regular_start by blast
  obtain g0 where t: "handleStreamTranslation ui0 = Inr g0"
    using ui0_stream_start by blast
  let ?f = "on_finally (on_data translated_body (on_response 200 f0))"
  let ?f' = "on_finally (on_catch abort_error (on_timeout ((on_interval ^^ 1) f0)))"
  let ?g = "stream_finally (stream_catch abort_error (g0\<lparr>saborted := True\<rparr>))"
  have r: "regular_run [FetchResolves 200, JsonResolves translated_body] f0 = Some ?f"
    using regular_body_run [OF s, of 200 translated_body] not_ok_500(3) by simp
  have p: "phase ?f = Settled" by simp
  have r': "regular_run [IntervalFires, TimeoutFires] f0 = Some ?f'"
    using regular_timeout_run [OF s, of 1] by simp
  have p': "phase ?f' = Settled" by simp
  have q: "stream_run no_json [Unload] g0 = Some ?g"
    using stream_start_fields(1) [OF t] by simp
  have w: "sphase ?g = StreamSettled" by simp
  have b: "get_prop (ascii ''translated_text'') translated_body = Inr (Some [0xC548, 0xB155])"
    by (simp add: translated_body_def ascii_def)
  note t1 = attempt_teardown [where u = ui0 and ?f0.0 = f0 and f = ?f and ?g0.0 = g0
      and g = ?g and P = no_json and sevs = "[Unload]" and st = 200 and j = translated_body
      and t = "Some [0xC548, 0xB155]" and cs = "[]"
      and evs = "[FetchResolves 200, JsonResolves translated_body]"]
  note t2 = attempt_teardown [where u = ui0 and ?f0.0 = f0 and f = ?f' and ?g0.0 = g0
      and g = ?g and P = no_json and sevs = "[Unload]" and st = 200 and j = translated_body
      and t = "Some [0xC548, 0xB155]" and cs = "[]"
      and evs = "[IntervalFires, TimeoutFires]"]
  from t1 t2 s t r p r' p' q w b
  show ?thesis by blast
qed

text \<open>
  C3 as stated fails: after a successful single-shot attempt has settled, the completion
  notice of line 335 is still pending and can fire, and so is the fade-out of the status
  indicator.
\<close>

theorem completion_timer_counterexample:
  "\<not> isl (handleRegularTranslation ui0)
   \<and> regular_run [FetchResolves 200, JsonResolves translated_body]
        (projr (handleRegularTranslation ui0)) \<noteq> None
   \<and> phase (the (regular_run [FetchResolves 200, JsonResolves translated_body]
        (projr (handleRegularTranslation ui0)))) = Settled
   \<and> completionTimer (the (regular_run [FetchResolves 200, JsonResolves translated_body]
        (projr (handleRegularTranslation ui0)))) = Some 500
   \<and> regular_step CompletionFires (the (regular_run [FetchResolves 200, JsonResolves translated_body]
        (projr (handleRegularTranslation ui0)))) \<noteq> None
   \<and> hideTimeout (doc (the (regular_run [FetchResolves 200, JsonResolves translated_body]
        (projr (handleRegularTranslation ui0)))))"
proof -
  obtain f0 where s: "handleRegularTranslation ui0 = Inr f0"
    using ui0_regular_start by blast
  have b: "get_prop (ascii ''translated_text'') translated_body = Inr (Some [0xC548, 0xB155])"
    by (simp add: translated_body_def ascii_def)
  from regular_success_run [OF s not_ok_500(3) b] obtain f where
    "regular_run [FetchResolves 200, JsonResolves translated_body] f0 = Some f"
    "phase f = Settled" "completionTimer f = Some 500"
    "regular_step CompletionFires f \<noteq> None" "hideTimeout (doc f)"
    by blast
  with s show ?thesis by simp
qed

text \<open>
  C4. In single-shot mode the timer started with the request has a delay of 180000
  milliseconds; when it fires before the request has settled, however many progress ticks
  came first, the controller is aborted, the attempt settles with the time-out message in
  the output area, and the button and the input area are enabled again. The time-out
  message differs from the server-unreachable message, and a transport error
  (a \<open>TypeError\<close>) never shows it.
\<close>

theorem timeout_aborts_and_reports:
  assumes start: "handleRegularTranslation u = Inr f0"
  shows "timeoutId f0 = Some 180000
     \<and> (\<exists>f. regular_run (replicate n IntervalFires @ [TimeoutFires]) f0 = Some f
           \<and> aborted f \<and> phase f = Settled
           \<and> output_textContent (doc f) = msg_timeout
           \<and> \<not> translate_disabled (doc f) \<and> input_contenteditable (doc f)
           \<and> timeoutId f = None \<and> progressInterval f = None)
     \<and> msg_timeout \<noteq> msg_unreachable
     \<and> (\<forall>msg. userFriendlyMessage (JsError TypeError msg) \<noteq> msg_timeout)"
proof -
  have a: "timeoutId f0 = Some 180000"
    by (rule regular_start_fields(2) [OF start])
  let ?f = "on_finally (on_catch abort_error (on_timeout ((on_interval ^^ n) f0)))"
  have b: "regular_run (replicate n IntervalFires @ [TimeoutFires]) f0 = Some ?f"
    by (rule regular_timeout_run [OF start])
  have c: "aborted ?f \<and> phase ?f = Settled \<and> output_textContent (doc ?f) = msg_timeout
           \<and> \<not> translate_disabled (doc ?f) \<and> input_contenteditable (doc ?f)
           \<and> timeoutId ?f = None \<and> progressInterval ?f = None"
    by (simp add: abort_error_friendly)
  have d: "\<forall>msg. userFriendlyMessage (JsError TypeError msg) \<noteq> msg_timeout"
  proof
    fix msg
    have "\<not> js_includes msg_timeout tag_input_error"
      by (simp add: js_includes_def msg_timeout_def tag_input_error_def sublist_code(3))
    then show "userFriendlyMessage (JsError TypeError msg) \<noteq> msg_timeout"
      using messages_distinct by (auto simp: userFriendlyMessage_def)
  qed
  from a b c d messages_distinct(1) show ?thesis by blast
qed


theorem timeout_aborts_and_reports_witness:
  "\<exists>f0 f. handleRegularTranslation ui0 = Inr f0
     \<and> regular_run (replicate 3 IntervalFires @ [TimeoutFires]) f0 = Some f
     \<and> aborted f \<and> phase f = Settled \<and> output_textContent (doc f) = msg_timeout
     \<and> \<not> translate_disabled (doc f) \<and> input_contenteditable (doc f)"
proof -
  obtain f0 where s: "handleRegularTranslation ui0 = Inr f0"
    using ui0_regular_start by blast
  from timeout_aborts_and_reports [OF s, of 3] s show ?thesis by blast
qed

text \<open>
  C2, as amended. In single-shot mode, for a response that is not OK and whose body is a
  JSON value other than \<open>null\<close>, the error raised is classified by status: 400 gives the
  input-error tag, 500 the server-error tag and any other status the text HTTP with the
  status, each followed by the \<open>detail\<close> of the body, or by the unknown-server-error text
  when the detail is absent or empty. The text rendered in the output area is that
  input-error message, detail included, for a 400; for a 500 whose raised text does not
  contain the input-error tag it is the fixed server-failure message, which is not an
  input-error message and carries no detail.
\<close>

theorem http_error_classified:
  assumes start: "handleRegularTranslation u = Inr f0" and st: "\<not> ok st"
    and body: "get_prop (ascii ''detail'') err = Inr d"
  shows "\<exists>f. regular_run [FetchResolves st, JsonResolves err] f0 = Some f \<and> phase f = Settled
     \<and> http_error st err = JsError Error
          (if st = 400 then tag_input_error @ ascii '': '' @ or_else d msg_unknown_server_error
           else if st = 500 then tag_server_error @ ascii '': '' @ or_else d msg_unknown_server_error
           else ascii ''HTTP '' @ show_nat st @ ascii '': '' @ or_else d msg_unknown_server_error)
     \<and> (st = 400 \<longrightarrow>
           output_textContent (doc f)
             = tag_input_error @ ascii '': '' @ or_else d msg_unknown_server_error)
     \<and> (st = 500 \<and> \<not> js_includes (message (http_error st err)) tag_input_error \<longrightarrow>
           output_textContent (doc f) = msg_server_failed
           \<and> msg_server_failed \<noteq> tag_input_error @ ascii '': '' @ or_else d msg_unknown_server_error)"
proof -
  let ?f = "on_finally (on_catch (http_error st err) (on_response st f0))"
  have run: "regular_run [FetchResolves st, JsonResolves err] f0 = Some ?f"
    using regular_body_run [OF start, of st err] st by simp
  have settled: "phase ?f = Settled" by simp
  note msg = http_error_message [OF body, of st]
  have out: "output_textContent (doc ?f) = userFriendlyMessage (http_error st err)" by simp
  have c400: "st = 400 \<longrightarrow>
           output_textContent (doc ?f)
             = tag_input_error @ ascii '': '' @ or_else d msg_unknown_server_error"
    unfolding out msg by (simp add: friendly_input_error)
  have differ: "msg_server_failed \<noteq> tag_input_error @ s" for s
    by (simp add: msg_server_failed_def tag_input_error_def)
  have c500: "st = 500 \<and> \<not> js_includes (message (http_error st err)) tag_input_error \<longrightarrow>
           output_textContent (doc ?f) = msg_server_failed
           \<and> msg_server_failed \<noteq> tag_input_error @ ascii '': '' @ or_else d msg_unknown_server_error"
    unfolding out msg using differ by (simp add: friendly_server_error)
  from run settled msg c400 c500 show ?thesis by blast
qed

theorem http_error_classified_witness:
  "\<exists>f0 f g. handleRegularTranslation ui0 = Inr f0
     \<and> regular_run [FetchResolves 400, JsonResolves empty_text_body] f0 = Some f
     \<and> output_textContent (doc f) = tag_input_error @ ascii '': empty text''
     \<and> regular_run [FetchResolves 500, JsonResolves quota_body] f0 = Some g
     \<and> output_textContent (doc g) = msg_server_failed"
proof -
  obtain f0 where s: "handleRegularTranslation ui0 = Inr f0"
    using ui0_regular_start by blast
  have b1: "get_prop (ascii ''detail'') empty_text_body = Inr (Some (ascii ''empty text''))"
    and b2: "get_prop (ascii ''detail'') quota_body = Inr (Some (ascii ''quota''))"
    by (simp_all add: empty_text_body_def quota_body_def ascii_def)
  have m: "message (http_error 500 quota_body) = tag_server_error @ ascii '': '' @ ascii ''quota''"
    by (simp add: http_error_message [OF b2] or_else_def ascii_def)
  have n: "\<not> js_includes (message (http_error 500 quota_body)) tag_input_error"
    unfolding m by (rule quota_has_no_input_tag)
  from http_error_classified [OF s not_ok_500(2) b1]
  obtain f where f: "regular_run [FetchResolves 400, JsonResolves empty_text_body] f0 = Some f"
    "output_textContent (doc f)
       = tag_input_error @ ascii '': '' @ or_else (Some (ascii ''empty text'')) msg_unknown_server_error"
    by auto
  from http_error_classified [OF s not_ok_500(1) b2] n
  obtain g where g: "regular_run [FetchResolves 500, JsonResolves quota_body] f0 = Some g"
    "output_textContent (doc g) = msg_server_failed"
    by auto
  have "ascii '': '' @ or_else (Some (ascii ''empty text'')) msg_unknown_server_error
      = ascii '': empty text''"
    by (simp add: or_else_def ascii_def)
  with s f g show ?thesis by metis
qed

text \<open>
  C2 as stated fails: a 500 response with the detail \<open>quota\<close> renders the fixed
  server-failure message, in which the detail does not occur.
\<close>

theorem http_500_detail_counterexample:
  "\<not> isl (handleRegularTranslation ui0)
   \<and> regular_run [FetchResolves 500, JsonResolves quota_body] (projr (handleRegularTranslation ui0))
       \<noteq> None
   \<and> output_textContent (doc (the (regular_run [FetchResolves 500, JsonResolves quota_body]
        (projr (handleRegularTranslation ui0))))) = msg_server_failed
   \<and> \<not> js_includes msg_server_failed (ascii ''quota'')"
proof -
  obtain f0 where s: "handleRegularTranslation ui0 = Inr f0"
    using ui0_regular_start by blast
  have b2: "get_prop (ascii ''detail'') quota_body = Inr (Some (ascii ''quota''))"
    by (simp add: quota_body_def ascii_def)
  have m: "http_error 500 quota_body
      = JsError Error (tag_server_error @ ascii '': '' @ ascii ''quota'')"
    by (simp add: http_error_message [OF b2] or_else_def ascii_def)
  have run: "regular_run [FetchResolves 500, JsonResolves quota_body] f0
      = Some (on_finally (on_catch (http_error 500 quota_body) (on_response 500 f0)))"
    using regular_body_run [OF s, of 500 quota_body] not_ok_500(1) by simp
  have out: "output_textContent (doc (on_finally (on_catch (http_error 500 quota_body) (on_response 500 f0))))
      = msg_server_failed"
    unfolding m using quota_has_no_input_tag by (simp add: friendly_server_error)
  from s run out server_failed_hides_quota show ?thesis by simp
qed

end
